theory Spec2Isabelle
  imports Main "HOL-Library.Multiset"
begin

section \<open>Strings and regular expressions of the host language\<close>

text \<open>
  Task names and tag names are JavaScript strings. They are modelled as HOL strings, a
  character standing for one code unit below 256. \<open>toLowerCase\<close> changes the letters
  \<open>A\<close> to \<open>Z\<close> only; the other letters it would change in that range (the accented
  capitals) are never compared with anything but ASCII text below, so they are left alone.
\<close>

definition lowerChar :: "char \<Rightarrow> char" where
  "lowerChar c =
     (case map_of (zip ''ABCDEFGHIJKLMNOPQRSTUVWXYZ'' ''abcdefghijklmnopqrstuvwxyz'') c of
        None \<Rightarrow> c | Some l \<Rightarrow> l)"

definition toLowerCase :: "string \<Rightarrow> string" where
  "toLowerCase s = map lowerChar s"

fun startsWith :: "string \<Rightarrow> string \<Rightarrow> bool" where
  "startsWith s [] = True"
| "startsWith [] (k # ks) = False"
| "startsWith (c # cs) (k # ks) = (c = k \<and> startsWith cs ks)"

text \<open>\<open>String.prototype.includes\<close>: the key occurs somewhere in the string.\<close>

fun strIncludes :: "string \<Rightarrow> string \<Rightarrow> bool" where
  "strIncludes [] k = (k = [])"
| "strIncludes (c # cs) k = (startsWith (c # cs) k \<or> strIncludes cs k)"

text \<open>
  The regular expressions of the source use literals, one character class, \<open>\s\<close>,
  \<open>\d\<close>, \<open>\b\<close>, grouping, alternation, \<open>?\<close>, \<open>*\<close> and \<open>+\<close>. All of them carry the
  flag \<open>i\<close> and none the flags \<open>g\<close>, \<open>y\<close> or \<open>u\<close>, so \<open>test\<close> has no state and
  letters are compared without case.
\<close>

datatype rx =
    Lit string
  | OneOf string
  | Space
  | Digit
  | WordB
  | Seq rx rx
  | Alt rx rx
  | Opt rx
  | Star rx
  | Plus rx

text \<open>
  A position in the subject is the code unit before it (if any) and the text after it;
  \<open>\b\<close> needs both sides.
\<close>

type_synonym pos = "char option \<times> string"

definition isSpaceChar :: "char \<Rightarrow> bool" where
  "isSpaceChar c = (c \<in> set [CHR 0x09, CHR 0x0A, CHR 0x0B, CHR 0x0C, CHR 0x0D, CHR '' '', CHR 0xA0])"

definition isDigitChar :: "char \<Rightarrow> bool" where
  "isDigitChar c = (c \<in> set ''0123456789'')"

definition isWordChar :: "char \<Rightarrow> bool" where
  "isWordChar c = (lowerChar c \<in> set ''abcdefghijklmnopqrstuvwxyz0123456789_'')"

definition atWordBoundary :: "pos \<Rightarrow> bool" where
  "atWordBoundary p =
     ((case fst p of None \<Rightarrow> False | Some c \<Rightarrow> isWordChar c)
        \<noteq> (case snd p of [] \<Rightarrow> False | c # cs \<Rightarrow> isWordChar c))"

fun litRun :: "string \<Rightarrow> pos \<Rightarrow> pos list" where
  "litRun [] p = [p]"
| "litRun (k # ks) (prev, []) = []"
| "litRun (k # ks) (prev, c # cs) =
     (if lowerChar c = lowerChar k then litRun ks (Some c, cs) else [])"

definition charRun :: "(char \<Rightarrow> bool) \<Rightarrow> pos \<Rightarrow> pos list" where
  "charRun ok p = (case snd p of [] \<Rightarrow> [] | c # cs \<Rightarrow> if ok c then [(Some c, cs)] else [])"

text \<open>
  Repetition: every iteration has to consume input (an iteration that matches the empty
  string is rejected by the host's matcher as well), so the length of the remaining text
  bounds the number of iterations.
\<close>

fun starRun :: "nat \<Rightarrow> (pos \<Rightarrow> pos list) \<Rightarrow> pos \<Rightarrow> pos list" where
  "starRun 0 f p = [p]"
| "starRun (Suc n) f p =
     concat (map (starRun n f) (filter (\<lambda>q. length (snd q) < length (snd p)) (f p))) @ [p]"

text \<open>All positions at which a match of the expression, started at the position, can end.\<close>

primrec rxRun :: "rx \<Rightarrow> pos \<Rightarrow> pos list" where
  "rxRun (Lit s) = litRun s"
| "rxRun (OneOf s) = charRun (\<lambda>c. lowerChar c \<in> set (map lowerChar s))"
| "rxRun Space = charRun isSpaceChar"
| "rxRun Digit = charRun isDigitChar"
| "rxRun WordB = (\<lambda>p. if atWordBoundary p then [p] else [])"
| "rxRun (Seq a b) = (\<lambda>p. concat (map (rxRun b) (rxRun a p)))"
| "rxRun (Alt a b) = (\<lambda>p. rxRun a p @ rxRun b p)"
| "rxRun (Opt a) = (\<lambda>p. rxRun a p @ [p])"
| "rxRun (Star a) = (\<lambda>p. starRun (length (snd p)) (rxRun a) p)"
| "rxRun (Plus a) = (\<lambda>p. concat (map (\<lambda>q. starRun (length (snd q)) (rxRun a) q) (rxRun a p)))"

fun rxSearch :: "rx \<Rightarrow> char option \<Rightarrow> string \<Rightarrow> bool" where
  "rxSearch r prev [] = (rxRun r (prev, []) \<noteq> [])"
| "rxSearch r prev (c # cs) = (rxRun r (prev, c # cs) \<noteq> [] \<or> rxSearch r (Some c) cs)"

text \<open>\<open>regex.test(s)\<close> for an expression without anchors: a match starts somewhere.\<close>

definition rxTest :: "rx \<Rightarrow> string \<Rightarrow> bool" where
  "rxTest r s = rxSearch r None s"

fun seqs :: "rx list \<Rightarrow> rx" where
  "seqs [] = Lit []"
| "seqs [r] = r"
| "seqs (r # rs) = Seq r (seqs rs)"

fun alts :: "rx list \<Rightarrow> rx" where
  "alts [] = Lit []"
| "alts [r] = r"
| "alts (r # rs) = Alt r (alts rs)"

section \<open>The pattern library\<close>

text \<open>\<open>EXCLUSION_PATTERNS\<close>: what must not count for a deliverable.\<close>

definition EXCLUSION_PATTERNS :: "(string \<times> rx list) list" where
  "EXCLUSION_PATTERNS =
   [(''Blog posts'',
       [Lit ''promo'',
        Lit ''promot'',
        seqs [Lit ''share'', Opt (OneOf ''ds''), Plus Space, Opt (Seq (Lit ''the'') (Plus Space)),
              Lit ''blog''],
        seqs [Lit ''post'', Opt (Alt (Lit ''ed'') (Lit ''ing'')), Plus Space,
              Alt (Lit ''on'') (Lit ''to''), Plus Space,
              alts [Lit ''social'', Lit ''twitter'', Lit ''linkedin'', Seq (Lit ''x'') WordB]],
        seqs [Lit ''social'', Star Space, Lit ''media''],
        Lit ''automat'']),
    (''Shorts'',
       [Lit ''schedul'',
        seqs [Lit ''post'', Opt (Alt (Lit ''ed'') (Lit ''ing'')), Plus Space,
              Alt (Lit ''on'') (Lit ''to'')],
        Seq (Lit ''share'') (Opt (OneOf ''ds'')),
        Lit ''social'',
        Lit ''distribute'',
        Lit ''upload'',
        Lit ''promo'']),
    (''Tutorial videos'',
       [Lit ''schedul'',
        seqs [Lit ''post'', Opt (Alt (Lit ''ed'') (Lit ''ing'')), Plus Space,
              Alt (Lit ''on'') (Lit ''to'')],
        Seq (Lit ''share'') (Opt (OneOf ''ds'')),
        Lit ''social'',
        Lit ''distribute'',
        Lit ''promo'']),
    (''Newsletter issues'',
       [Lit ''prep'',
        Seq (Lit ''plan'') (Opt (Lit ''ning'')),
        Lit ''draft'',
        Lit ''outline'',
        Lit ''idea'']),
    (''Metrics reports'',
       [Lit ''expense'',
        seqs [Lit ''status'', Star Space, Lit ''report''],
        seqs [Lit ''weekly'', Star Space, Lit ''report''],
        seqs [Lit ''progress'', Star Space, Lit ''report'']]),
    (''goose contributions'',
       [Lit ''session'',
        Lit ''meeting'',
        Seq (Lit ''prep'') (Opt (Alt (Lit ''are'') (Lit ''aring''))),
        Lit ''schedul'',
        Lit ''demo'',
        Lit ''review'',
        Lit ''learn'',
        seqs [Lit ''test'', Opt (Lit ''ing''), Plus Space, Lit ''goose''],
        seqs [Lit ''goose'', Star Space, Lit ''doc''],
        seqs [Lit ''doc'', Opt (Alt (Lit ''s'') (Lit ''umentation'')), Star Space,
              Opt (Seq (Lit ''for'') (Plus Space)), Lit ''goose'']]),
    (''Docs'',
       [Lit ''expense''])]"

text \<open>\<open>CONFIRMATION_PATTERNS\<close>: what a name must also say for an ambiguous keyword.\<close>

definition CONFIRMATION_PATTERNS :: "(string \<times> rx list) list" where
  "CONFIRMATION_PATTERNS =
   [(''goose contributions'',
       [seqs [WordB, Lit ''pr'', WordB],
        seqs [Lit ''pull'', Star Space, Lit ''request''],
        Seq (Lit ''merg'') (alts [Lit ''e'', Lit ''ed'', Lit ''ing'']),
        seqs [Lit ''fix'', Opt (alts [Lit ''ed'', Lit ''ing'', Lit ''es'']), WordB],
        seqs [WordB, Lit ''bug'', WordB],
        Lit ''feature'',
        Lit ''contribut'',
        Lit ''implement'',
        Seq (Lit ''ship'') (Opt (Alt (Lit ''ped'') (Lit ''ping''))),
        seqs [Lit ''issue'', Star Space, Opt (Lit ''#''), Plus Digit],
        Lit ''resolv'',
        Seq (Lit ''clos'') (alts [Lit ''e'', Lit ''ed'', Lit ''ing''])]),
    (''Blog posts'',
       [seqs [Lit ''wr'', Opt (Lit ''o''), Lit ''te''],
        Seq (Lit ''writ'') (alts [Lit ''e'', Lit ''ing'', Lit ''ten'']),
        Lit ''publish'',
        Lit ''draft'',
        seqs [WordB, Lit ''blog'', Star Space, Alt (Lit ''post'') (Lit ''article'')],
        Lit ''author'']),
    (''Metrics reports'',
       [Lit ''metrics'',
        seqs [Lit ''community'', Star Space, Alt (Lit ''metrics'') (Lit ''report'')],
        Lit ''analytics'',
        seqs [Lit ''discord'', Star Space, Alt (Lit ''metrics'') (Lit ''stats'')],
        seqs [Lit ''github'', Star Space, Alt (Lit ''metrics'') (Lit ''stats'')]]),
    (''Side projects'',
       [seqs [Lit ''side'', Star Space, Lit ''project''],
        seqs [WordB, Lit ''repo'', WordB],
        Lit ''repositor'',
        Lit ''built'',
        Lit ''building'',
        Seq (Lit ''ship'') (Opt (Lit ''ped''))])]"

text \<open>\<open>AGENTIC_PATTERNS\<close>, in the order of the object literal.\<close>

definition AGENTIC_PATTERNS :: "(string \<times> rx list) list" where
  "AGENTIC_PATTERNS =
   [(''MCP Apps'', [seqs [Lit ''mcp'', Star Space, Lit ''app'']]),
    (''MCP Sampling'', [seqs [Lit ''mcp'', Star Space, Lit ''sampl''],
                        seqs [WordB, Lit ''sampling'', WordB]]),
    (''Skills'', [Lit ''skill'', Lit ''taste'']),
    (''Elicitation'', [Lit ''elicit'']),
    (''Recipes'', [Lit ''recipe'']),
    (''Subagents'', [Lit ''subagent'', Lit ''sub-agent'']),
    (''Code Mode'', [seqs [Lit ''code'', Star Space, Lit ''mode'']]),
    (''ACP'', [seqs [WordB, Lit ''acp'', WordB],
               seqs [Lit ''agent'', Star Space, Lit ''client'', Star Space, Lit ''protocol'']]),
    (''RPI'', [seqs [WordB, Lit ''rpi'', WordB]]),
    (''Ralph Wiggum Loop'', [Lit ''ralph'']),
    (''Context Engineering'', [seqs [Lit ''context'', Star Space, Lit ''engineer''],
                               Lit ''agents.md'',
                               Lit ''goosehints'']),
    (''ai-rules'', [Lit ''ai-rules'', seqs [Lit ''ai'', Star Space, Lit ''rules'']]),
    (''Plans'', [seqs [WordB, Lit ''plan'', Opt (Lit ''s''), WordB],
                 seqs [Lit ''planning'', Star Space, Lit ''mode'']]),
    (''Beads'', [seqs [WordB, Lit ''bead'', Opt (Lit ''s''), WordB]])]"

definition CONTENT_DELIVERABLES :: "string list" where
  "CONTENT_DELIVERABLES =
     [''Tutorial videos'', ''Shorts'', ''Blog posts'', ''Vibe Code w/ goose streams'']"

definition EXCLUDED_ASSIGNEES :: "string list" where
  "EXCLUDED_ASSIGNEES = [''Anthony Giuliano'', ''Eva Sasson'', ''Adewale Abati'']"

text \<open>
  \<open>detectAgenticPatterns\<close>: the names of the patterns one of whose expressions matches,
  each once, in table order.
\<close>

definition detectAgenticPatterns :: "string \<Rightarrow> string list" where
  "detectAgenticPatterns taskName =
     map fst (filter (\<lambda>(patternName, regexes). list_ex (\<lambda>regex. rxTest regex taskName) regexes)
                AGENTIC_PATTERNS)"

text \<open>
  \<open>isExcluded\<close> and \<open>hasConfirmation\<close>. The callers pass a deliverable name of the
  tables, or the key \<open>undefined\<close>; none of them is a property that an object literal
  inherits, so the lookup is a lookup of the literal's own entries.
\<close>

definition isExcluded :: "string \<Rightarrow> string \<Rightarrow> bool" where
  "isExcluded taskName category =
     (case map_of EXCLUSION_PATTERNS category of
        None \<Rightarrow> False
      | Some patterns \<Rightarrow> list_ex (\<lambda>pattern. rxTest pattern taskName) patterns)"

definition hasConfirmation :: "string \<Rightarrow> string \<Rightarrow> bool" where
  "hasConfirmation taskName category =
     (case map_of CONFIRMATION_PATTERNS category of
        None \<Rightarrow> True
      | Some patterns \<Rightarrow> list_ex (\<lambda>pattern. rxTest pattern taskName) patterns)"

section \<open>Tasks, tags and the lookup tables\<close>

text \<open>
  A field that may be absent (\<open>undefined\<close> or \<open>null\<close>) is an option. \<open>task_assignee\<close>
  is what \<open>task.assignee?.name\<close> reads, \<open>task_followers\<close> holds what \<open>f.name\<close> reads
  for each follower.
\<close>

record tag =
  tag_gid :: "string option"
  tag_name :: "string option"

record task =
  task_gid :: string
  task_name :: string
  task_completed_at :: "string option"
  task_tags :: "tag list option"
  task_assignee :: "string option"
  task_followers :: "string option list option"

datatype error = TypeError

text \<open>
  What a lookup in a tag table yields when it is truthy: an entry of the table, or, for
  a key such as \<open>constructor\<close>, the member that every object literal inherits, which has
  neither a category nor a deliverable.
\<close>

datatype mapping = Mapping string string | Inherited string

fun mapping_category :: "mapping \<Rightarrow> string option" where
  "mapping_category (Mapping c d) = Some c"
| "mapping_category (Inherited k) = None"

fun mapping_deliverable :: "mapping \<Rightarrow> string option" where
  "mapping_deliverable (Mapping c d) = Some d"
| "mapping_deliverable (Inherited k) = None"

text \<open>An absent value used as a property key is the key \<open>undefined\<close>.\<close>

definition propKey :: "string option \<Rightarrow> string" where
  "propKey k = (case k of None \<Rightarrow> ''undefined'' | Some s \<Rightarrow> s)"

definition OBJECT_PROTOTYPE_KEYS :: "string list" where
  "OBJECT_PROTOTYPE_KEYS =
     [''constructor'', ''__defineGetter__'', ''__defineSetter__'', ''hasOwnProperty'',
      ''__lookupGetter__'', ''__lookupSetter__'', ''isPrototypeOf'', ''propertyIsEnumerable'',
      ''toString'', ''valueOf'', ''__proto__'', ''toLocaleString'']"

definition objGet :: "(string \<times> string \<times> string) list \<Rightarrow> string \<Rightarrow> mapping option" where
  "objGet tbl k =
     (case map_of tbl k of
        Some (c, d) \<Rightarrow> Some (Mapping c d)
      | None \<Rightarrow> if k \<in> set OBJECT_PROTOTYPE_KEYS then Some (Inherited k) else None)"

definition TAG_CATEGORY_MAP :: "(string \<times> string \<times> string) list" where
  "TAG_CATEGORY_MAP =
   [(''1212903104247034'', ''Build'', ''Side projects''),
    (''1208438924809387'', ''Build'', ''goose contributions''),
    (''1212903104247031'', ''Build'', ''goose contributions''),
    (''1208125190486880'', ''Videos'', ''Tutorial videos''),
    (''1204316592156255'', ''Videos'', ''Tutorial videos''),
    (''1204316592156190'', ''Videos'', ''Shorts''),
    (''1204316592156209'', ''Blogs'', ''Blog posts''),
    (''1205607058770995'', ''Livestreams'', ''Vibe Code w/ goose streams''),
    (''1212892322315514'', ''Public Speaking'', ''CFPs (submitted or accepted)''),
    (''1204316592156237'', ''Public Speaking'', ''Talks delivered''),
    (''1204316592156228'', ''Public Speaking'', ''Podcast recordings''),
    (''1206441534238594'', ''Public Speaking'', ''Talks delivered''),
    (''1200006700367828'', ''Community'', ''Newsletter issues''),
    (''1204364638447788'', ''Community'', ''Community''),
    (''1204316592156189'', ''Documentation'', ''Docs''),
    (''1204463482160284'', ''Documentation'', ''Docs''),
    (''1207924330531310'', ''Documentation'', ''Docs'')]"

definition TAG_NAME_MAP :: "(string \<times> string \<times> string) list" where
  "TAG_NAME_MAP =
   [(''side project'', ''Build'', ''Side projects''),
    (''goose'', ''Build'', ''goose contributions''),
    (''goose contribution'', ''Build'', ''goose contributions''),
    (''video tutorial'', ''Videos'', ''Tutorial videos''),
    (''tutorial'', ''Videos'', ''Tutorial videos''),
    (''video'', ''Videos'', ''Shorts''),
    (''blog'', ''Blogs'', ''Blog posts''),
    (''livestream'', ''Livestreams'', ''Vibe Code w/ goose streams''),
    (''cfp'', ''Public Speaking'', ''CFPs (submitted or accepted)''),
    (''public speaking'', ''Public Speaking'', ''Talks delivered''),
    (''podcast'', ''Public Speaking'', ''Podcast recordings''),
    (''workshop'', ''Public Speaking'', ''Talks delivered''),
    (''newsletter'', ''Community'', ''Newsletter issues''),
    (''community'', ''Community'', ''Community''),
    (''documentation'', ''Documentation'', ''Docs''),
    (''guide'', ''Documentation'', ''Docs''),
    (''internal devrel'', ''Documentation'', ''Docs'')]"

section \<open>The classifier\<close>

text \<open>Phase 0: \<open>tags.some(t => t.gid === gid || t.name?.toLowerCase() === name)\<close>.\<close>

definition hasPriorityTag :: "string \<Rightarrow> string \<Rightarrow> tag list \<Rightarrow> bool" where
  "hasPriorityTag gid name tags =
     list_ex (\<lambda>t. tag_gid t = Some gid \<or> map_option toLowerCase (tag_name t) = Some name) tags"

definition hasSideProjectTag :: "tag list \<Rightarrow> bool" where
  "hasSideProjectTag tags = hasPriorityTag ''1212903104247034'' ''side project'' tags"

definition hasCfpTag :: "tag list \<Rightarrow> bool" where
  "hasCfpTag tags = hasPriorityTag ''1212892322315514'' ''cfp'' tags"

definition hasGooseContributionTag :: "tag list \<Rightarrow> bool" where
  "hasGooseContributionTag tags = hasPriorityTag ''1212903104247031'' ''goose contribution'' tags"

definition hasTutorialTag :: "tag list \<Rightarrow> bool" where
  "hasTutorialTag tags =
     list_ex (\<lambda>t. tag_gid t = Some ''1208125190486880'' \<or> tag_gid t = Some ''1204316592156255'') tags"

definition hasVideoTag :: "tag list \<Rightarrow> bool" where
  "hasVideoTag tags = list_ex (\<lambda>t. tag_gid t = Some ''1204316592156190'') tags"

text \<open>
  Phase 1, the body of the loop for one tag: \<open>Some m\<close> is \<open>return m\<close>, \<open>None\<close> is the
  next tag (by \<open>continue\<close> or by falling out of the body).
\<close>

definition phase1Tag :: "tag list \<Rightarrow> string \<Rightarrow> string \<Rightarrow> tag \<Rightarrow> mapping option" where
  "phase1Tag tags taskName taskNameOriginal tg =
     (case objGet TAG_CATEGORY_MAP (propKey (tag_gid tg)) of
        None \<Rightarrow> None
      | Some mapping \<Rightarrow>
          if tag_gid tg = Some ''1212903104247034'' \<or> tag_gid tg = Some ''1212892322315514''
               \<or> tag_gid tg = Some ''1212903104247031''
          then None
          else if tag_gid tg = Some ''1204316592156190'' then
            (if (strIncludes taskName ''short'' \<or> strIncludes taskName ''[shorts]''
                   \<or> strIncludes taskName ''quick tip''
                   \<or> rxTest (seqs [Lit ''under'', Star Space,
                                    Alt (Lit ''60'') (seqs [Lit ''1'', Star Space, Lit ''min''])])
                        taskName)
                 \<and> \<not> strIncludes taskName ''shortcut''
                 \<and> \<not> isExcluded taskNameOriginal ''Shorts''
             then Some (Mapping ''Videos'' ''Shorts'')
             else if (hasTutorialTag tags \<or> strIncludes taskName ''tutorial''
                        \<or> strIncludes taskName ''plug & play''
                        \<or> strIncludes taskName ''plug and play''
                        \<or> strIncludes taskName ''flight school'')
                      \<and> \<not> isExcluded taskNameOriginal ''Tutorial videos''
             then Some (Mapping ''Videos'' ''Tutorial videos'')
             else if \<not> isExcluded taskNameOriginal ''Shorts''
             then Some (Mapping ''Videos'' ''Shorts'')
             else None)
          else if tag_gid tg = Some ''1208125190486880'' \<or> tag_gid tg = Some ''1204316592156255''
          then
            (if hasVideoTag tags
                  \<or> (strIncludes taskName ''video'' \<or> strIncludes taskName ''filmed''
                      \<or> strIncludes taskName ''recorded'' \<or> strIncludes taskName ''youtube'')
             then Some (Mapping ''Videos'' ''Tutorial videos'')
             else Some (Mapping ''Documentation'' ''Docs''))
          else if tag_gid tg = Some ''1212903104247031''
          then Some (Mapping ''Build'' ''goose contributions'')
          else if tag_gid tg = Some ''1208438924809387'' then
            (if isExcluded taskNameOriginal ''goose contributions'' then None
             else if hasConfirmation taskNameOriginal ''goose contributions''
             then Some (Mapping ''Build'' ''goose contributions'')
             else None)
          else if \<not> isExcluded taskNameOriginal (propKey (mapping_deliverable mapping))
          then Some mapping
          else None)"

fun phase1 :: "tag list \<Rightarrow> string \<Rightarrow> string \<Rightarrow> tag list \<Rightarrow> mapping option" where
  "phase1 tags taskName taskNameOriginal [] = None"
| "phase1 tags taskName taskNameOriginal (tg # rest) =
     (case phase1Tag tags taskName taskNameOriginal tg of
        Some m \<Rightarrow> Some m
      | None \<Rightarrow> phase1 tags taskName taskNameOriginal rest)"

text \<open>
  Phase 2, the body of the loop for one tag. \<open>tag.name.toLowerCase()\<close> has no guard:
  on a tag without a name it raises.
\<close>

definition phase2Tag :: "string \<Rightarrow> tag \<Rightarrow> error + mapping option" where
  "phase2Tag taskNameOriginal tg =
     (case tag_name tg of
        None \<Rightarrow> Inl TypeError
      | Some nm \<Rightarrow>
          (let tagNameLower = toLowerCase nm in
           case objGet TAG_NAME_MAP tagNameLower of
             None \<Rightarrow> Inr None
           | Some mapping \<Rightarrow>
               if tagNameLower = ''goose contribution''
               then Inr (Some (Mapping ''Build'' ''goose contributions''))
               else if tagNameLower = ''goose'' then
                 (if isExcluded taskNameOriginal ''goose contributions'' then Inr None
                  else if hasConfirmation taskNameOriginal ''goose contributions''
                  then Inr (Some mapping)
                  else Inr None)
               else if \<not> isExcluded taskNameOriginal (propKey (mapping_deliverable mapping))
               then Inr (Some mapping)
               else Inr None))"

fun phase2 :: "string \<Rightarrow> tag list \<Rightarrow> error + mapping option" where
  "phase2 taskNameOriginal [] = Inr None"
| "phase2 taskNameOriginal (tg # rest) =
     (case phase2Tag taskNameOriginal tg of
        Inl e \<Rightarrow> Inl e
      | Inr (Some m) \<Rightarrow> Inr (Some m)
      | Inr None \<Rightarrow> phase2 taskNameOriginal rest)"

text \<open>Phase 3: the cascade of keyword checks on the name.\<close>

definition hasVideoIndicator :: "string \<Rightarrow> bool" where
  "hasVideoIndicator taskName =
     (strIncludes taskName ''video'' \<or> strIncludes taskName ''filmed''
      \<or> strIncludes taskName ''recorded'' \<or> strIncludes taskName ''youtube''
      \<or> (strIncludes taskName ''published'' \<and> \<not> strIncludes taskName ''doc''
          \<and> \<not> strIncludes taskName ''blog''))"

definition phase3 :: "string \<Rightarrow> string \<Rightarrow> mapping option" where
  "phase3 taskName taskNameOriginal =
     (if (strIncludes taskName ''[shorts]'' \<or> strIncludes taskName ''quick tip''
            \<or> (strIncludes taskName ''short'' \<and> \<not> strIncludes taskName ''shortcut''))
          \<and> \<not> isExcluded taskNameOriginal ''Shorts''
      then Some (Mapping ''Videos'' ''Shorts'')
      else if (strIncludes taskName ''tutorial'' \<or> strIncludes taskName ''plug & play''
                 \<or> strIncludes taskName ''plug and play''
                 \<or> strIncludes taskName ''flight school'')
               \<and> hasVideoIndicator taskName
               \<and> \<not> isExcluded taskNameOriginal ''Tutorial videos''
      then Some (Mapping ''Videos'' ''Tutorial videos'')
      else if (strIncludes taskName ''tutorial'' \<or> strIncludes taskName ''plug & play''
                 \<or> strIncludes taskName ''plug and play'')
               \<and> \<not> hasVideoIndicator taskName
               \<and> \<not> isExcluded taskNameOriginal ''Docs''
      then Some (Mapping ''Documentation'' ''Docs'')
      else if strIncludes taskName ''livestream'' \<or> strIncludes taskName ''vibe code''
               \<or> (strIncludes taskName ''stream'' \<and> strIncludes taskName ''goose'')
      then Some (Mapping ''Livestreams'' ''Vibe Code w/ goose streams'')
      else if (strIncludes taskName ''blog'' \<or> strIncludes taskName ''article'')
               \<and> \<not> isExcluded taskNameOriginal ''Blog posts''
               \<and> hasConfirmation taskNameOriginal ''Blog posts''
      then Some (Mapping ''Blogs'' ''Blog posts'')
      else if strIncludes taskName ''cfp''
               \<or> (strIncludes taskName ''submit''
                   \<and> (strIncludes taskName ''conference'' \<or> strIncludes taskName ''talk''))
      then Some (Mapping ''Public Speaking'' ''CFPs (submitted or accepted)'')
      else if strIncludes taskName ''podcast'' \<or> strIncludes taskName ''guest recording''
               \<or> (strIncludes taskName ''recording'' \<and> strIncludes taskName ''guest'')
      then Some (Mapping ''Public Speaking'' ''Podcast recordings'')
      else if strIncludes taskName ''keynote'' \<or> strIncludes taskName ''workshop''
               \<or> (strIncludes taskName ''talk''
                   \<and> (strIncludes taskName ''deliver'' \<or> strIncludes taskName ''gave''
                       \<or> strIncludes taskName ''present''))
      then Some (Mapping ''Public Speaking'' ''Talks delivered'')
      else if strIncludes taskName ''newsletter''
               \<and> \<not> isExcluded taskNameOriginal ''Newsletter issues''
      then Some (Mapping ''Community'' ''Newsletter issues'')
      else if strIncludes taskName ''spotlight''
      then Some (Mapping ''Community'' ''Spotlights'')
      else if (strIncludes taskName ''metrics'' \<or> strIncludes taskName ''report'')
               \<and> \<not> isExcluded taskNameOriginal ''Metrics reports''
               \<and> hasConfirmation taskNameOriginal ''Metrics reports''
      then Some (Mapping ''Community'' ''Metrics reports'')
      else if strIncludes taskName ''goose''
               \<and> \<not> isExcluded taskNameOriginal ''goose contributions''
               \<and> hasConfirmation taskNameOriginal ''goose contributions''
      then Some (Mapping ''Build'' ''goose contributions'')
      else if (strIncludes taskName ''side project'' \<or> strIncludes taskName ''sideproject'')
               \<and> hasConfirmation taskNameOriginal ''Side projects''
      then Some (Mapping ''Build'' ''Side projects'')
      else if (strIncludes taskName ''goose doc'' \<or> strIncludes taskName ''goose-doc''
                 \<or> rxTest (seqs [Lit ''doc'', Opt (Alt (Lit ''s'') (Lit ''umentation'')),
                                  Star Space, Opt (Seq (Lit ''for'') (Plus Space)), Lit ''goose''])
                      taskNameOriginal
                 \<or> (strIncludes taskName ''goose'' \<and> strIncludes taskName ''documentation''))
               \<and> \<not> isExcluded taskNameOriginal ''Docs''
      then Some (Mapping ''Documentation'' ''Docs'')
      else if (strIncludes taskName ''documentation''
                 \<or> (strIncludes taskName ''doc''
                     \<and> (strIncludes taskName ''wrote'' \<or> strIncludes taskName ''update''
                         \<or> strIncludes taskName ''add'')))
               \<and> \<not> isExcluded taskNameOriginal ''Docs''
      then Some (Mapping ''Documentation'' ''Docs'')
      else None)"

text \<open>\<open>categorizeTask\<close>: \<open>Inl\<close> is the exception, \<open>Inr None\<close> is \<open>null\<close>.\<close>

definition categorizeTask :: "task \<Rightarrow> error + mapping option" where
  "categorizeTask t =
     (let tags = (case task_tags t of None \<Rightarrow> [] | Some ts \<Rightarrow> ts);
          taskName = toLowerCase (task_name t);
          taskNameOriginal = task_name t
      in if hasSideProjectTag tags then Inr (Some (Mapping ''Build'' ''Side projects''))
         else if hasCfpTag tags
         then Inr (Some (Mapping ''Public Speaking'' ''CFPs (submitted or accepted)''))
         else if hasGooseContributionTag tags
         then Inr (Some (Mapping ''Build'' ''goose contributions''))
         else (case phase1 tags taskName taskNameOriginal tags of
                 Some m \<Rightarrow> Inr (Some m)
               | None \<Rightarrow>
                   (case phase2 taskNameOriginal tags of
                      Inl e \<Rightarrow> Inl e
                    | Inr (Some m) \<Rightarrow> Inr (Some m)
                    | Inr None \<Rightarrow> Inr (phase3 taskName taskNameOriginal))))"

section \<open>The aggregator\<close>

text \<open>
  A goal spec is the nested object literal of the configuration: its entries in order, a
  target being a number or \<open>null\<close>. The keys of an object are distinct, which
  \<open>wfGoals\<close> says; they are taken to be ordinary property names (not \<open>__proto__\<close>).
  The progress object is the nested map from category and deliverable to the entry.
\<close>

type_synonym goals = "(string \<times> (string \<times> nat option) list) list"

definition wfGoals :: "goals \<Rightarrow> bool" where
  "wfGoals goals =
     (distinct (map fst goals) \<and> list_all (\<lambda>(category, deliverables). distinct (map fst deliverables)) goals)"

definition declaredPairs :: "goals \<Rightarrow> (string \<times> string) list" where
  "declaredPairs goals =
     concat (map (\<lambda>(category, deliverables). map (\<lambda>(d, target). (category, d)) deliverables)
               goals)"

record taskData =
  td_gid :: string
  td_name :: string
  td_completed_at :: "string option"
  td_assignee :: string
  td_collaborators :: "string list"
  td_tags :: "string option list"
  td_agenticPatterns :: "string list"
  td_sourceDeliverable :: "string option"

record entry =
  en_completed :: nat
  en_tasks :: "taskData list"
  en_patternsFound :: "string list option"

type_synonym progress = "string \<Rightarrow> (string \<Rightarrow> entry option) option"

definition emptyEntry :: entry where
  "emptyEntry = \<lparr>en_completed = 0, en_tasks = [], en_patternsFound = None\<rparr>"

definition initProgress :: "goals \<Rightarrow> progress" where
  "initProgress goals =
     foldl (\<lambda>progress (category, deliverables).
              progress(category \<mapsto>
                foldl (\<lambda>m (deliverable, target). m(deliverable \<mapsto> emptyEntry))
                  Map.empty deliverables))
       Map.empty goals"

text \<open>\<open>progress[c]?.[d]\<close>.\<close>

definition progressGet :: "progress \<Rightarrow> string \<Rightarrow> string \<Rightarrow> entry option" where
  "progressGet progress c d = (case progress c of None \<Rightarrow> None | Some m \<Rightarrow> m d)"

definition progressSet :: "progress \<Rightarrow> string \<Rightarrow> string \<Rightarrow> entry \<Rightarrow> progress" where
  "progressSet progress c d e =
     (case progress c of None \<Rightarrow> progress | Some m \<Rightarrow> progress(c \<mapsto> m(d \<mapsto> e)))"

text \<open>A \<open>Set\<close> keeps its members in the order of their first insertion.\<close>

definition setAdd :: "string list \<Rightarrow> string \<Rightarrow> string list" where
  "setAdd found p = (if p \<in> set found then found else found @ [p])"

definition collaboratorsOf :: "task \<Rightarrow> string list" where
  "collaboratorsOf t =
     concat (map (\<lambda>name. case name of
                      None \<Rightarrow> []
                    | Some n \<Rightarrow>
                        if n \<noteq> [] \<and> Some n \<noteq> task_assignee t \<and> n \<notin> set EXCLUDED_ASSIGNEES
                        then [n] else [])
               (case task_followers t of None \<Rightarrow> [] | Some fs \<Rightarrow> fs))"

definition taskDataOf :: "task \<Rightarrow> taskData" where
  "taskDataOf t =
     \<lparr>td_gid = task_gid t,
      td_name = task_name t,
      td_completed_at = task_completed_at t,
      td_assignee = (case task_assignee t of
                       None \<Rightarrow> ''Unassigned''
                     | Some n \<Rightarrow> if n = [] then ''Unassigned'' else n),
      td_collaborators = collaboratorsOf t,
      td_tags = (case task_tags t of None \<Rightarrow> [] | Some ts \<Rightarrow> map tag_name ts),
      td_agenticPatterns = detectAgenticPatterns (task_name t),
      td_sourceDeliverable = None\<rparr>"

record aggState =
  st_progress :: progress
  st_agenticPatternsFound :: "string list"
  st_agenticPatternsTasks :: "taskData list"

text \<open>The body of the loop over the tasks, for a task that classified to \<open>mapping\<close>.\<close>

definition countTask :: "task \<Rightarrow> mapping \<Rightarrow> aggState \<Rightarrow> aggState" where
  "countTask t mapping st =
     (let c = propKey (mapping_category mapping);
          d = propKey (mapping_deliverable mapping)
      in case progressGet (st_progress st) c d of
           None \<Rightarrow> st
         | Some e \<Rightarrow>
             (let taskData = taskDataOf t;
                  patterns = td_agenticPatterns taskData;
                  progress' = progressSet (st_progress st) c d
                                (e\<lparr>en_completed := en_completed e + 1,
                                   en_tasks := en_tasks e @ [taskData]\<rparr>)
              in if (case mapping_deliverable mapping of
                       None \<Rightarrow> False
                     | Some dv \<Rightarrow> dv \<in> set CONTENT_DELIVERABLES)
                    \<and> patterns \<noteq> []
                 then \<lparr>st_progress = progress',
                       st_agenticPatternsFound = foldl setAdd (st_agenticPatternsFound st) patterns,
                       st_agenticPatternsTasks =
                         st_agenticPatternsTasks st
                           @ [taskData\<lparr>td_sourceDeliverable := mapping_deliverable mapping\<rparr>]\<rparr>
                 else st\<lparr>st_progress := progress'\<rparr>))"

fun taskLoop :: "task list \<Rightarrow> aggState \<Rightarrow> error + aggState" where
  "taskLoop [] st = Inr st"
| "taskLoop (t # ts) st =
     (case categorizeTask t of
        Inl e \<Rightarrow> Inl e
      | Inr None \<Rightarrow> taskLoop ts st
      | Inr (Some mapping) \<Rightarrow> taskLoop ts (countTask t mapping st))"

definition populateAgentic :: "aggState \<Rightarrow> progress" where
  "populateAgentic st =
     (case progressGet (st_progress st) ''Build'' ''Agentic patterns owned'' of
        None \<Rightarrow> st_progress st
      | Some e \<Rightarrow>
          progressSet (st_progress st) ''Build'' ''Agentic patterns owned''
            (e\<lparr>en_completed := length (st_agenticPatternsFound st),
               en_tasks := st_agenticPatternsTasks st,
               en_patternsFound := Some (st_agenticPatternsFound st)\<rparr>))"

definition calculateProgress :: "task list \<Rightarrow> goals \<Rightarrow> error + progress" where
  "calculateProgress tasks goals =
     (case taskLoop tasks \<lparr>st_progress = initProgress goals,
                           st_agenticPatternsFound = [],
                           st_agenticPatternsTasks = []\<rparr> of
        Inl e \<Rightarrow> Inl e
      | Inr st \<Rightarrow> Inr (populateAgentic st))"

section \<open>What the task search hands to the aggregator\<close>

text \<open>
  \<open>searchCompletedTasks\<close>, after the requests: the records are made unique by identifier
  and the tasks of the excluded assignees are filtered out.
\<close>

fun uniqueTasks :: "string list \<Rightarrow> task list \<Rightarrow> task list" where
  "uniqueTasks seenGids [] = []"
| "uniqueTasks seenGids (t # ts) =
     (if task_gid t \<notin> set seenGids then t # uniqueTasks (seenGids @ [task_gid t]) ts
      else uniqueTasks seenGids ts)"

definition keepsAssignee :: "task \<Rightarrow> bool" where
  "keepsAssignee t =
     (case task_assignee t of
        None \<Rightarrow> True
      | Some assigneeName \<Rightarrow>
          if assigneeName = [] then True else assigneeName \<notin> set EXCLUDED_ASSIGNEES)"

definition filteredTasks :: "task list \<Rightarrow> task list" where
  "filteredTasks allTasks = filter keepsAssignee (uniqueTasks [] allTasks)"

section \<open>The cache\<close>

text \<open>
  Instants are milliseconds since the epoch. Each function reads the clock twice, first
  in \<open>isQuarterPast\<close> (\<open>new Date()\<close>) and then by \<open>Date.now()\<close>; the two readings are the
  arguments \<open>now\<close> and \<open>now'\<close>. \<open>QUARTER_END\<close> is \<open>new Date(config.endDate)\<close> for the
  periods of \<open>QUARTER_CONFIG\<close>.
\<close>

record 'a cacheEntry =
  ce_data :: 'a
  ce_timestamp :: int
  ce_isPast :: bool

type_synonym 'a cache = "string \<Rightarrow> 'a cacheEntry option"

definition CURRENT_QUARTER_TTL :: int where
  "CURRENT_QUARTER_TTL = 5 * 60 * 1000"

definition QUARTER_END :: "(string \<times> int) list" where
  "QUARTER_END =
     [(''2026-Q1'', 1775001600000),
      (''2026-Q2'', 1782864000000),
      (''2026-Q3'', 1790812800000),
      (''2026-Q4'', 1798761600000)]"

definition isQuarterPast :: "string \<Rightarrow> int \<Rightarrow> bool" where
  "isQuarterPast quarterId now =
     (case map_of QUARTER_END quarterId of None \<Rightarrow> False | Some endDate \<Rightarrow> endDate < now)"

definition isCacheValid :: "'a cacheEntry option \<Rightarrow> string \<Rightarrow> int \<Rightarrow> int \<Rightarrow> bool" where
  "isCacheValid cacheEntry quarterId now now' =
     (case cacheEntry of
        None \<Rightarrow> False
      | Some e \<Rightarrow>
          if isQuarterPast quarterId now \<and> ce_isPast e then True
          else now' - ce_timestamp e < CURRENT_QUARTER_TTL)"

definition setCache :: "string \<Rightarrow> 'a \<Rightarrow> int \<Rightarrow> int \<Rightarrow> 'a cache \<Rightarrow> 'a cache" where
  "setCache quarterId data now now' cache =
     cache(quarterId \<mapsto>
       \<lparr>ce_data = data, ce_timestamp = now', ce_isPast = isQuarterPast quarterId now\<rparr>)"

definition getCache :: "string \<Rightarrow> int \<Rightarrow> int \<Rightarrow> 'a cache \<Rightarrow> 'a option \<times> 'a cache" where
  "getCache quarterId now now' cache =
     (if isCacheValid (cache quarterId) quarterId now now'
      then (map_option ce_data (cache quarterId), cache)
      else (None, cache(quarterId := None)))"

text \<open>A run of \<open>getCache\<close> calls for one period, each with its two clock readings.\<close>

fun getRun :: "string \<Rightarrow> (int \<times> int) list \<Rightarrow> 'a cache \<Rightarrow> 'a option list \<times> 'a cache" where
  "getRun quarterId [] cache = ([], cache)"
| "getRun quarterId ((now, now') # reads) cache =
     (case getCache quarterId now now' cache of
        (r, cache') \<Rightarrow>
          (case getRun quarterId reads cache' of (rs, cache'') \<Rightarrow> (r # rs, cache'')))"

section \<open>Notions used to state the properties\<close>

text \<open>
  A tag that neither tag table knows: the lookup by its identifier and the lookup by its
  lower-cased name both find nothing. The tag has a name.
\<close>

definition unrecognizedTag :: "tag \<Rightarrow> bool" where
  "unrecognizedTag g =
     (objGet TAG_CATEGORY_MAP (propKey (tag_gid g)) = None
      \<and> (case tag_name g of
            None \<Rightarrow> False
          | Some n \<Rightarrow> objGet TAG_NAME_MAP (toLowerCase n) = None))"

text \<open>
  A tag that the tables know as the generic goose tag only: by its identifier, by its
  name, or by both, the other lookup finding nothing.
\<close>

definition genericGooseTag :: "tag \<Rightarrow> bool" where
  "genericGooseTag g =
     ((tag_gid g = Some ''1208438924809387''
         \<or> objGet TAG_CATEGORY_MAP (propKey (tag_gid g)) = None)
      \<and> (case tag_name g of
            None \<Rightarrow> False
          | Some n \<Rightarrow> toLowerCase n = ''goose'' \<or> objGet TAG_NAME_MAP (toLowerCase n) = None)
      \<and> (tag_gid g = Some ''1208438924809387''
           \<or> map_option toLowerCase (tag_name g) = Some ''goose''))"

text \<open>
  The keys under which the aggregator looks a classification up in the progress object,
  and the keys of the classification of a task (none when the classifier returns \<open>null\<close> or
  raises).
\<close>

definition keyOf :: "mapping \<Rightarrow> string \<times> string" where
  "keyOf m = (propKey (mapping_category m), propKey (mapping_deliverable m))"

definition taskKey :: "task \<Rightarrow> (string \<times> string) option" where
  "taskKey t =
     (case categorizeTask t of
        Inl e \<Rightarrow> None
      | Inr None \<Rightarrow> None
      | Inr (Some m) \<Rightarrow> Some (keyOf m))"

text \<open>The sum of the completed counts of a progress object over a list of pairs.\<close>

definition completedSum :: "progress \<Rightarrow> (string \<times> string) list \<Rightarrow> nat" where
  "completedSum P pairs =
     sum_list (map (\<lambda>(c, d). case progressGet P c d of None \<Rightarrow> 0 | Some e \<Rightarrow> en_completed e)
                 pairs)"

text \<open>The number of tasks whose classification is one of the pairs.\<close>

definition classifiedInto :: "(string \<times> string) list \<Rightarrow> task list \<Rightarrow> nat" where
  "classifiedInto pairs ts =
     length (filter (\<lambda>t. case taskKey t of None \<Rightarrow> False | Some k \<Rightarrow> k \<in> set pairs) ts)"

text \<open>
  The derived aggregate of a progress object: the count and the set of the patterns found
  of Build / Agentic patterns owned, when the goal spec declares it.
\<close>

definition agenticPatternsOwned :: "progress \<Rightarrow> (nat \<times> string set) option" where
  "agenticPatternsOwned P =
     map_option (\<lambda>e. (en_completed e,
                       set (case en_patternsFound e of None \<Rightarrow> [] | Some ps \<Rightarrow> ps)))
       (progressGet P ''Build'' ''Agentic patterns owned'')"

text \<open>
  The patterns a task adds to the set of patterns found, given the pairs present in the
  progress object: those detected in its name when it classifies to a content deliverable
  that is present.
\<close>

definition patternsOfTask :: "(string \<times> string) set \<Rightarrow> task \<Rightarrow> string set" where
  "patternsOfTask D t =
     (case categorizeTask t of
        Inl e \<Rightarrow> {}
      | Inr None \<Rightarrow> {}
      | Inr (Some m) \<Rightarrow>
          if keyOf m \<in> D
             \<and> (case mapping_deliverable m of
                   None \<Rightarrow> False
                 | Some dv \<Rightarrow> dv \<in> set CONTENT_DELIVERABLES)
          then set (detectAgenticPatterns (task_name t))
          else {})"

section \<open>Verification\<close>

subsection \<open>Priority tags\<close>

lemma hasPriorityTag_gid:
  "g \<in> set tags \<Longrightarrow> tag_gid g = Some gid \<Longrightarrow> hasPriorityTag gid name tags"
  by (auto simp: hasPriorityTag_def list_ex_iff)

text \<open>
  Claim C3, as amended. A task that carries one of the three priority identifiers is
  classified in phase 0, whatever its name: to Build / Side projects if it has a side-project
  tag, else to Public Speaking / CFPs if it has a cfp tag, else to Build / goose
  contributions. The right-hand side does not mention the name of the task, so no keyword,
  confirmation or exclusion rule has a say.
\<close>

theorem priority_tag_decides:
  assumes "task_tags t = Some tags"
    and "g \<in> set tags"
    and "tag_gid g = Some ''1212903104247034'' \<or> tag_gid g = Some ''1212892322315514''
           \<or> tag_gid g = Some ''1212903104247031''"
  shows "categorizeTask t =
           Inr (Some (if hasSideProjectTag tags then Mapping ''Build'' ''Side projects''
                      else if hasCfpTag tags
                      then Mapping ''Public Speaking'' ''CFPs (submitted or accepted)''
                      else Mapping ''Build'' ''goose contributions''))"
proof -
  from assms(2,3) have "hasSideProjectTag tags \<or> hasCfpTag tags \<or> hasGooseContributionTag tags"
    unfolding hasSideProjectTag_def hasCfpTag_def hasGooseContributionTag_def
    using hasPriorityTag_gid by blast
  then show ?thesis
    using assms(1) by (auto simp: categorizeTask_def)
qed

text \<open>The task named "prep meeting notes" with the side-project identifier.\<close>

theorem priority_tag_decides_witness:
  "categorizeTask \<lparr>task_gid = ''t1'', task_name = ''prep meeting notes'',
       task_completed_at = None,
       task_tags = Some [\<lparr>tag_gid = Some ''1212903104247034'', tag_name = Some ''Side Project''\<rparr>],
       task_assignee = None, task_followers = None\<rparr>
     = Inr (Some (Mapping ''Build'' ''Side projects''))"
  using priority_tag_decides [where t = "\<lparr>task_gid = ''t1'', task_name = ''prep meeting notes'',
       task_completed_at = None,
       task_tags = Some [\<lparr>tag_gid = Some ''1212903104247034'', tag_name = Some ''Side Project''\<rparr>],
       task_assignee = None, task_followers = None\<rparr>"
     and tags = "[\<lparr>tag_gid = Some ''1212903104247034'', tag_name = Some ''Side Project''\<rparr>]"
     and g = "\<lparr>tag_gid = Some ''1212903104247034'', tag_name = Some ''Side Project''\<rparr>"]
  by (simp add: hasSideProjectTag_def hasPriorityTag_def)

text \<open>
  Claim C3 as stated fails for a task with two priority tags: this one carries the cfp
  identifier and is not classified to the pair of the cfp tag, because the side-project tag
  is looked for first.
\<close>

theorem priority_tag_counterexample:
  "categorizeTask \<lparr>task_gid = ''t2'', task_name = ''Submit CFP for the conference'',
       task_completed_at = None,
       task_tags = Some [\<lparr>tag_gid = Some ''1212892322315514'', tag_name = Some ''cfp''\<rparr>,
                         \<lparr>tag_gid = Some ''1212903104247034'', tag_name = Some ''side project''\<rparr>],
       task_assignee = None, task_followers = None\<rparr>
     = Inr (Some (Mapping ''Build'' ''Side projects''))
   \<and> categorizeTask \<lparr>task_gid = ''t2'', task_name = ''Submit CFP for the conference'',
       task_completed_at = None,
       task_tags = Some [\<lparr>tag_gid = Some ''1212892322315514'', tag_name = Some ''cfp''\<rparr>,
                         \<lparr>tag_gid = Some ''1212903104247034'', tag_name = Some ''side project''\<rparr>],
       task_assignee = None, task_followers = None\<rparr>
     \<noteq> Inr (Some (Mapping ''Public Speaking'' ''CFPs (submitted or accepted)''))"
  by (simp add: categorizeTask_def hasSideProjectTag_def hasPriorityTag_def)

subsection \<open>Faults\<close>

text \<open>
  Claim C2 at a tag object without a name: phase 0 guards the name of a tag
  (\<open>t.name?.toLowerCase()\<close>), phase 2 does not, and the classifier raises.
\<close>

theorem nameless_tag_raises:
  "categorizeTask \<lparr>task_gid = ''t3'', task_name = ''Weekly sync'',
       task_completed_at = None,
       task_tags = Some [\<lparr>tag_gid = Some ''42'', tag_name = None\<rparr>],
       task_assignee = None, task_followers = None\<rparr>
     = Inl TypeError"
  by (simp add: categorizeTask_def hasSideProjectTag_def hasCfpTag_def hasGooseContributionTag_def
        hasPriorityTag_def phase1Tag_def phase2Tag_def objGet_def propKey_def TAG_CATEGORY_MAP_def
        OBJECT_PROTOTYPE_KEYS_def)


subsection \<open>Tags that decide nothing\<close>

lemma objGet_gid_known:
  "objGet TAG_CATEGORY_MAP ''1212903104247034'' \<noteq> None"
  "objGet TAG_CATEGORY_MAP ''1212892322315514'' \<noteq> None"
  "objGet TAG_CATEGORY_MAP ''1212903104247031'' \<noteq> None"
  by (simp_all add: objGet_def TAG_CATEGORY_MAP_def)

lemma objGet_name_known:
  "objGet TAG_NAME_MAP ''side project'' \<noteq> None"
  "objGet TAG_NAME_MAP ''cfp'' \<noteq> None"
  "objGet TAG_NAME_MAP ''goose contribution'' \<noteq> None"
  by (simp_all add: objGet_def TAG_NAME_MAP_def)

lemma objGet_goose:
  "objGet TAG_CATEGORY_MAP ''1208438924809387'' = Some (Mapping ''Build'' ''goose contributions'')"
  "objGet TAG_NAME_MAP ''goose'' = Some (Mapping ''Build'' ''goose contributions'')"
  by (simp_all add: objGet_def TAG_CATEGORY_MAP_def TAG_NAME_MAP_def)

text \<open>A tag that is unrecognized or generic goose is no priority tag.\<close>

lemma loose_tag_no_priority:
  assumes "unrecognizedTag g \<or> genericGooseTag g"
  shows "tag_gid g \<noteq> Some ''1212903104247034''" "tag_gid g \<noteq> Some ''1212892322315514''"
    "tag_gid g \<noteq> Some ''1212903104247031''"
    "map_option toLowerCase (tag_name g) \<noteq> Some ''side project''"
    "map_option toLowerCase (tag_name g) \<noteq> Some ''cfp''"
    "map_option toLowerCase (tag_name g) \<noteq> Some ''goose contribution''"
  using assms objGet_gid_known objGet_name_known
  by (auto simp: unrecognizedTag_def genericGooseTag_def propKey_def split: option.splits)

lemma loose_tags_phase0:
  assumes "\<forall>g \<in> set tags. unrecognizedTag g \<or> genericGooseTag g"
  shows "\<not> hasSideProjectTag tags" "\<not> hasCfpTag tags" "\<not> hasGooseContributionTag tags"
proof -
  have "\<forall>g \<in> set tags.
          \<not> (tag_gid g = Some ''1212903104247034''
              \<or> map_option toLowerCase (tag_name g) = Some ''side project'')
          \<and> \<not> (tag_gid g = Some ''1212892322315514''
              \<or> map_option toLowerCase (tag_name g) = Some ''cfp'')
          \<and> \<not> (tag_gid g = Some ''1212903104247031''
              \<or> map_option toLowerCase (tag_name g) = Some ''goose contribution'')"
    using assms loose_tag_no_priority by blast
  then show "\<not> hasSideProjectTag tags" "\<not> hasCfpTag tags" "\<not> hasGooseContributionTag tags"
    unfolding hasSideProjectTag_def hasCfpTag_def hasGooseContributionTag_def
      hasPriorityTag_def list_ex_iff by blast+
qed

lemma unrecognized_phase1Tag:
  "unrecognizedTag g \<Longrightarrow> phase1Tag tags tn n g = None"
  by (simp add: unrecognizedTag_def phase1Tag_def)

lemma unrecognized_phase2Tag:
  "unrecognizedTag g \<Longrightarrow> phase2Tag n g = Inr None"
  by (auto simp: unrecognizedTag_def phase2Tag_def split: option.splits)

lemma goose_phase1Tag:
  assumes "genericGooseTag g" and "\<not> hasConfirmation n ''goose contributions''"
  shows "phase1Tag tags tn n g = None"
proof (cases "tag_gid g = Some ''1208438924809387''")
  case True
  then show ?thesis
    using assms(2) by (simp add: phase1Tag_def propKey_def objGet_goose)
next
  case False
  with assms(1) have "objGet TAG_CATEGORY_MAP (propKey (tag_gid g)) = None"
    by (simp add: genericGooseTag_def)
  then show ?thesis by (simp add: phase1Tag_def)
qed

lemma goose_phase2Tag:
  assumes "genericGooseTag g" and "\<not> hasConfirmation n ''goose contributions''"
  shows "phase2Tag n g = Inr None"
proof -
  from assms(1) obtain nm where nm: "tag_name g = Some nm"
    and c: "toLowerCase nm = ''goose'' \<or> objGet TAG_NAME_MAP (toLowerCase nm) = None"
    by (auto simp: genericGooseTag_def split: option.splits)
  from c show ?thesis
  proof
    assume "toLowerCase nm = ''goose''"
    then show ?thesis using nm assms(2) by (simp add: phase2Tag_def objGet_goose)
  next
    assume "objGet TAG_NAME_MAP (toLowerCase nm) = None"
    then show ?thesis using nm by (simp add: phase2Tag_def)
  qed
qed

lemma phase1_all_None:
  "\<forall>g \<in> set rest. phase1Tag tags tn n g = None \<Longrightarrow> phase1 tags tn n rest = None"
  by (induction rest) auto

lemma phase2_all_None:
  "\<forall>g \<in> set rest. phase2Tag n g = Inr None \<Longrightarrow> phase2 n rest = Inr None"
  by (induction rest) auto

text \<open>With such tags only, the classifier is the keyword phase.\<close>

lemma loose_tags_keyword_phase:
  assumes "\<forall>g \<in> set (case task_tags t of None \<Rightarrow> [] | Some ts \<Rightarrow> ts).
             unrecognizedTag g \<or> (genericGooseTag g \<and> \<not> hasConfirmation (task_name t) ''goose contributions'')"
  shows "categorizeTask t = Inr (phase3 (toLowerCase (task_name t)) (task_name t))"
proof -
  let ?tags = "case task_tags t of None \<Rightarrow> [] | Some ts \<Rightarrow> ts"
  from assms have a: "\<forall>g \<in> set ?tags. unrecognizedTag g \<or> genericGooseTag g" by blast
  have p1: "phase1 ?tags (toLowerCase (task_name t)) (task_name t) ?tags = None"
    using assms unrecognized_phase1Tag goose_phase1Tag by (intro phase1_all_None) blast
  have p2: "phase2 (task_name t) ?tags = Inr None"
    using assms unrecognized_phase2Tag goose_phase2Tag by (intro phase2_all_None) blast
  show ?thesis
    using loose_tags_phase0 [OF a] p1 p2 by (simp add: categorizeTask_def Let_def)
qed

lemma phase3_no_goose_without_confirmation:
  "\<not> hasConfirmation n ''goose contributions''
     \<Longrightarrow> phase3 tn n \<noteq> Some (Mapping c ''goose contributions'')"
  by (simp add: phase3_def)


subsection \<open>The generic goose tag\<close>

text \<open>
  Claim C7, as amended. When every tag of a task is either unknown to the tag tables or
  known as the generic goose tag only, every tag has a name, and the name of the task matches
  no confirmation expression of goose contributions, the tags decide nothing: the task is
  classified as the same task without tags is, by the keyword rules alone, and never to
  the deliverable goose contributions.
\<close>

theorem generic_goose_needs_confirmation:
  assumes "\<forall>g \<in> set (case task_tags t of None \<Rightarrow> [] | Some ts \<Rightarrow> ts).
             unrecognizedTag g \<or> genericGooseTag g"
    and "\<not> hasConfirmation (task_name t) ''goose contributions''"
  shows "categorizeTask t = categorizeTask (t\<lparr>task_tags := None\<rparr>)
         \<and> categorizeTask t \<noteq> Inr (Some (Mapping c ''goose contributions''))"
proof -
  have 1: "categorizeTask t = Inr (phase3 (toLowerCase (task_name t)) (task_name t))"
    using assms by (intro loose_tags_keyword_phase) blast
  have 2: "categorizeTask (t\<lparr>task_tags := None\<rparr>)
             = Inr (phase3 (toLowerCase (task_name t)) (task_name t))"
    using loose_tags_keyword_phase [of "t\<lparr>task_tags := None\<rparr>"] by simp
  show ?thesis
    using 1 2 phase3_no_goose_without_confirmation [OF assms(2)] by simp
qed

text \<open>
  The task named "goose sighting at the park" with the generic goose tag classifies to
  none.
\<close>

theorem generic_goose_needs_confirmation_witness:
  "categorizeTask \<lparr>task_gid = ''t4'', task_name = ''goose sighting at the park'',
       task_completed_at = None,
       task_tags = Some [\<lparr>tag_gid = Some ''1208438924809387'', tag_name = Some ''goose''\<rparr>],
       task_assignee = None, task_followers = None\<rparr> = Inr None
   \<and> categorizeTask \<lparr>task_gid = ''t4'', task_name = ''goose sighting at the park'',
       task_completed_at = None,
       task_tags = Some [\<lparr>tag_gid = Some ''1208438924809387'', tag_name = Some ''goose''\<rparr>],
       task_assignee = None, task_followers = None\<rparr>
     \<noteq> Inr (Some (Mapping ''Build'' ''goose contributions''))"
proof -
  let ?t = "\<lparr>task_gid = ''t4'', task_name = ''goose sighting at the park'',
       task_completed_at = None,
       task_tags = Some [\<lparr>tag_gid = Some ''1208438924809387'', tag_name = Some ''goose''\<rparr>],
       task_assignee = None, task_followers = None\<rparr>"
  have tags: "\<forall>g \<in> set (case task_tags ?t of None \<Rightarrow> [] | Some ts \<Rightarrow> ts).
                unrecognizedTag g \<or> genericGooseTag g"
    by (simp add: genericGooseTag_def toLowerCase_def lowerChar_def)
  have conf: "\<not> hasConfirmation (task_name ?t) ''goose contributions''"
    by code_simp
  have "categorizeTask (?t\<lparr>task_tags := None\<rparr>) = Inr None"
    by code_simp
  with generic_goose_needs_confirmation [OF tags conf, of "''Build''"] show ?thesis
    by simp
qed

text \<open>
  Claim C7 as stated fails when a keyword rule of another deliverable matches the name: this
  task has the generic goose tag only and a name without confirmation, and it classifies to
  the livestream deliverable, not to none.
\<close>

theorem generic_goose_counterexample:
  "\<not> hasConfirmation ''goose livestream'' ''goose contributions''
   \<and> categorizeTask \<lparr>task_gid = ''t5'', task_name = ''goose livestream'',
       task_completed_at = None,
       task_tags = Some [\<lparr>tag_gid = Some ''1208438924809387'', tag_name = Some ''goose''\<rparr>],
       task_assignee = None, task_followers = None\<rparr>
     = Inr (Some (Mapping ''Livestreams'' ''Vibe Code w/ goose streams''))"
  by code_simp

subsection \<open>Written and recorded tutorials\<close>

text \<open>
  Claim C8, as amended. Take a task all of whose tags are unknown to the tag tables and
  whose name does not fire the Shorts rule. If the name has a tutorial keyword (tutorial,
  plug & play, plug and play, flight school), a video indicator (video, filmed, recorded,
  youtube, or published without doc and blog) and matches no exclusion expression of
  Tutorial videos, the task is classified to Videos / Tutorial videos. If the name has one
  of the first three tutorial keywords, no video indicator and matches no exclusion
  expression of Docs, it is classified to Documentation / Docs.
\<close>

theorem tutorial_medium:
  assumes "\<forall>g \<in> set (case task_tags t of None \<Rightarrow> [] | Some ts \<Rightarrow> ts). unrecognizedTag g"
    and "tn = toLowerCase (task_name t)"
    and "\<not> ((strIncludes tn ''[shorts]'' \<or> strIncludes tn ''quick tip''
               \<or> (strIncludes tn ''short'' \<and> \<not> strIncludes tn ''shortcut''))
             \<and> \<not> isExcluded (task_name t) ''Shorts'')"
  shows "((strIncludes tn ''tutorial'' \<or> strIncludes tn ''plug & play''
             \<or> strIncludes tn ''plug and play'' \<or> strIncludes tn ''flight school'')
           \<and> hasVideoIndicator tn \<and> \<not> isExcluded (task_name t) ''Tutorial videos''
          \<longrightarrow> categorizeTask t = Inr (Some (Mapping ''Videos'' ''Tutorial videos'')))
       \<and> ((strIncludes tn ''tutorial'' \<or> strIncludes tn ''plug & play''
             \<or> strIncludes tn ''plug and play'')
           \<and> \<not> hasVideoIndicator tn \<and> \<not> isExcluded (task_name t) ''Docs''
          \<longrightarrow> categorizeTask t = Inr (Some (Mapping ''Documentation'' ''Docs'')))"
proof -
  have "categorizeTask t = Inr (phase3 tn (task_name t))"
    using assms(1,2) loose_tags_keyword_phase [of t] by blast
  then show ?thesis
    using assms(3) by (simp add: phase3_def)
qed

text \<open>The two names of the claim.\<close>

theorem tutorial_medium_witness:
  "categorizeTask \<lparr>task_gid = ''t8'', task_name = ''Wrote a tutorial on skills'',
       task_completed_at = None, task_tags = Some [],
       task_assignee = None, task_followers = None\<rparr>
     = Inr (Some (Mapping ''Documentation'' ''Docs''))
   \<and> categorizeTask \<lparr>task_gid = ''t9'', task_name = ''Recorded a tutorial on skills'',
       task_completed_at = None, task_tags = Some [],
       task_assignee = None, task_followers = None\<rparr>
     = Inr (Some (Mapping ''Videos'' ''Tutorial videos''))"
proof -
  let ?w = "\<lparr>task_gid = ''t8'', task_name = ''Wrote a tutorial on skills'',
       task_completed_at = None, task_tags = Some [],
       task_assignee = None, task_followers = None\<rparr>"
  let ?r = "\<lparr>task_gid = ''t9'', task_name = ''Recorded a tutorial on skills'',
       task_completed_at = None, task_tags = Some [],
       task_assignee = None, task_followers = None\<rparr>"
  have tags: "\<forall>g \<in> set (case task_tags ?w of None \<Rightarrow> [] | Some ts \<Rightarrow> ts). unrecognizedTag g"
    "\<forall>g \<in> set (case task_tags ?r of None \<Rightarrow> [] | Some ts \<Rightarrow> ts). unrecognizedTag g"
    by simp_all
  have w: "\<not> ((strIncludes (toLowerCase (task_name ?w)) ''[shorts]''
                  \<or> strIncludes (toLowerCase (task_name ?w)) ''quick tip''
                  \<or> (strIncludes (toLowerCase (task_name ?w)) ''short''
                      \<and> \<not> strIncludes (toLowerCase (task_name ?w)) ''shortcut''))
                \<and> \<not> isExcluded (task_name ?w) ''Shorts'')"
    "(strIncludes (toLowerCase (task_name ?w)) ''tutorial''
        \<or> strIncludes (toLowerCase (task_name ?w)) ''plug & play''
        \<or> strIncludes (toLowerCase (task_name ?w)) ''plug and play'')
     \<and> \<not> hasVideoIndicator (toLowerCase (task_name ?w))
     \<and> \<not> isExcluded (task_name ?w) ''Docs''"
    by code_simp+
  have r: "\<not> ((strIncludes (toLowerCase (task_name ?r)) ''[shorts]''
                  \<or> strIncludes (toLowerCase (task_name ?r)) ''quick tip''
                  \<or> (strIncludes (toLowerCase (task_name ?r)) ''short''
                      \<and> \<not> strIncludes (toLowerCase (task_name ?r)) ''shortcut''))
                \<and> \<not> isExcluded (task_name ?r) ''Shorts'')"
    "(strIncludes (toLowerCase (task_name ?r)) ''tutorial''
        \<or> strIncludes (toLowerCase (task_name ?r)) ''plug & play''
        \<or> strIncludes (toLowerCase (task_name ?r)) ''plug and play''
        \<or> strIncludes (toLowerCase (task_name ?r)) ''flight school'')
     \<and> hasVideoIndicator (toLowerCase (task_name ?r))
     \<and> \<not> isExcluded (task_name ?r) ''Tutorial videos''"
    by code_simp+
  from tutorial_medium [OF tags(1) refl w(1)] w(2)
  have "categorizeTask ?w = Inr (Some (Mapping ''Documentation'' ''Docs''))"
    by blast
  moreover from tutorial_medium [OF tags(2) refl r(1)] r(2)
  have "categorizeTask ?r = Inr (Some (Mapping ''Videos'' ''Tutorial videos''))"
    by blast
  ultimately show ?thesis by simp
qed

text \<open>
  Claim C8 as stated fails for a name with a tutorial keyword and none of the four
  video-evidence keywords that says "published": it is classified to Tutorial videos, not
  to Docs.
\<close>

theorem tutorial_medium_counterexample:
  "strIncludes (toLowerCase ''Published a tutorial on skills'') ''tutorial''
   \<and> \<not> strIncludes (toLowerCase ''Published a tutorial on skills'') ''video''
   \<and> \<not> strIncludes (toLowerCase ''Published a tutorial on skills'') ''filmed''
   \<and> \<not> strIncludes (toLowerCase ''Published a tutorial on skills'') ''recorded''
   \<and> \<not> strIncludes (toLowerCase ''Published a tutorial on skills'') ''youtube''
   \<and> categorizeTask \<lparr>task_gid = ''t10'', task_name = ''Published a tutorial on skills'',
       task_completed_at = None, task_tags = Some [],
       task_assignee = None, task_followers = None\<rparr>
     = Inr (Some (Mapping ''Videos'' ''Tutorial videos''))"
  by code_simp

subsection \<open>Exclusion in each phase\<close>

lemma isExcluded_no_set [simp]:
  "isExcluded n ''Side projects'' = False"
  "isExcluded n ''CFPs (submitted or accepted)'' = False"
  "isExcluded n ''Vibe Code w/ goose streams'' = False"
  "isExcluded n ''Podcast recordings'' = False"
  "isExcluded n ''Talks delivered'' = False"
  "isExcluded n ''Spotlights'' = False"
  "isExcluded n ''Community'' = False"
  "isExcluded n ''undefined'' = False"
  by (simp_all add: isExcluded_def EXCLUSION_PATTERNS_def)

lemma phase3_not_excluded:
  "phase3 tn n = Some (Mapping c d) \<Longrightarrow> \<not> isExcluded n d"
  by (simp add: phase3_def split: if_splits; clarsimp)

lemma objGet_TAG_CATEGORY_MAP_cases:
  assumes "objGet TAG_CATEGORY_MAP k = Some (Mapping c d)"
  shows "(k, c, d) \<in> set TAG_CATEGORY_MAP"
  using assms by (auto simp: objGet_def dest: map_of_SomeD split: option.splits if_splits)

lemma objGet_TAG_NAME_MAP_cases:
  assumes "objGet TAG_NAME_MAP k = Some (Mapping c d)"
  shows "(k, c, d) \<in> set TAG_NAME_MAP"
  using assms by (auto simp: objGet_def dest: map_of_SomeD split: option.splits if_splits)

lemma phase1Tag_excluded:
  assumes "phase1Tag tags tn n g = Some (Mapping c d)" and "isExcluded n d"
  shows "(tag_gid g = Some ''1208125190486880'' \<or> tag_gid g = Some ''1204316592156255'')
         \<and> (d = ''Tutorial videos'' \<or> d = ''Docs'')"
  using assms
  by (auto simp: phase1Tag_def propKey_def split: option.splits if_splits)

lemma phase2Tag_excluded:
  assumes "phase2Tag n g = Inr (Some (Mapping c d))" and "isExcluded n d"
  shows "map_option toLowerCase (tag_name g) = Some ''goose contribution''
         \<and> d = ''goose contributions''"
  using assms
  by (auto simp: phase2Tag_def propKey_def Let_def objGet_goose split: option.splits if_splits)

lemma phase1_Some:
  "phase1 tags tn n rest = Some m \<Longrightarrow> \<exists>g \<in> set rest. phase1Tag tags tn n g = Some m"
  by (induction rest) (auto split: option.splits)

lemma phase2_Some:
  "phase2 n rest = Inr (Some m) \<Longrightarrow> \<exists>g \<in> set rest. phase2Tag n g = Inr (Some m)"
  by (induction rest) (auto split: option.splits sum.splits)



subsection \<open>Exclusion dominance\<close>

text \<open>
  Claim C4, as amended. A task whose name matches an exclusion expression of a deliverable
  is never classified to that deliverable, whether or not a positive keyword matches as
  well, except where a tag decides without a look at the exclusions: the goose-contribution
  priority tag (for goose contributions) and a tutorial tag identifier (for Tutorial videos
  and Docs); the theorem takes these two out by hypothesis.
\<close>

theorem exclusion_dominance:
  assumes "isExcluded (task_name t) d"
    and "tags = (case task_tags t of None \<Rightarrow> [] | Some ts \<Rightarrow> ts)"
    and "d = ''goose contributions'' \<longrightarrow> \<not> hasGooseContributionTag tags"
    and "d = ''Tutorial videos'' \<or> d = ''Docs'' \<longrightarrow> \<not> hasTutorialTag tags"
  shows "categorizeTask t \<noteq> Inr (Some (Mapping c d))"
proof
  let ?n = "task_name t" and ?tn = "toLowerCase (task_name t)"
  assume r: "categorizeTask t = Inr (Some (Mapping c d))"
  from assms(1) have d0: "d \<noteq> ''Side projects''" "d \<noteq> ''CFPs (submitted or accepted)''"
    by auto
  have nogc: "\<not> hasGooseContributionTag tags"
  proof
    assume h: "hasGooseContributionTag tags"
    with r assms(2) d0 have "d = ''goose contributions''"
      by (auto simp: categorizeTask_def Let_def split: if_splits)
    with assms(3) h show False by simp
  qed
  have p1: "phase1 tags ?tn ?n tags \<noteq> Some (Mapping c d)"
  proof
    assume "phase1 tags ?tn ?n tags = Some (Mapping c d)"
    then obtain g where g: "g \<in> set tags" "phase1Tag tags ?tn ?n g = Some (Mapping c d)"
      using phase1_Some by blast
    from phase1Tag_excluded [OF g(2) assms(1)] g(1)
    have "hasTutorialTag tags \<and> (d = ''Tutorial videos'' \<or> d = ''Docs'')"
      by (auto simp: hasTutorialTag_def list_ex_iff)
    with assms(4) show False by simp
  qed
  have p2: "phase2 ?n tags \<noteq> Inr (Some (Mapping c d))"
  proof
    assume "phase2 ?n tags = Inr (Some (Mapping c d))"
    then obtain g where g: "g \<in> set tags" "phase2Tag ?n g = Inr (Some (Mapping c d))"
      using phase2_Some by blast
    from phase2Tag_excluded [OF g(2) assms(1)] g(1)
    have "hasGooseContributionTag tags"
      by (auto simp: hasGooseContributionTag_def hasPriorityTag_def list_ex_iff)
    with nogc show False by simp
  qed
  have p3: "phase3 ?tn ?n \<noteq> Some (Mapping c d)"
    using phase3_not_excluded assms(1) by blast
  from r assms(2) d0 nogc p1 p2 p3 show False
    by (auto simp: categorizeTask_def Let_def split: if_splits option.splits sum.splits)
qed

text \<open>
  "Schedule shorts for next week" is not classified as Shorts; a name that a
  goose-contributions exclusion matches is not classified to goose contributions under the
  generic goose tag, though it has a confirming keyword.
\<close>

theorem exclusion_dominance_witness:
  "categorizeTask \<lparr>task_gid = ''t6'', task_name = ''Schedule shorts for next week'',
       task_completed_at = None, task_tags = Some [],
       task_assignee = None, task_followers = None\<rparr>
     \<noteq> Inr (Some (Mapping ''Videos'' ''Shorts''))
   \<and> categorizeTask \<lparr>task_gid = ''t7'', task_name = ''Fixed the goose bug found in the meeting'',
       task_completed_at = None,
       task_tags = Some [\<lparr>tag_gid = Some ''1208438924809387'', tag_name = Some ''goose''\<rparr>],
       task_assignee = None, task_followers = None\<rparr>
     \<noteq> Inr (Some (Mapping ''Build'' ''goose contributions''))"
proof -
  let ?t = "\<lparr>task_gid = ''t6'', task_name = ''Schedule shorts for next week'',
       task_completed_at = None, task_tags = Some [],
       task_assignee = None, task_followers = None\<rparr>"
  let ?u = "\<lparr>task_gid = ''t7'', task_name = ''Fixed the goose bug found in the meeting'',
       task_completed_at = None,
       task_tags = Some [\<lparr>tag_gid = Some ''1208438924809387'', tag_name = Some ''goose''\<rparr>],
       task_assignee = None, task_followers = None\<rparr>"
  have e: "isExcluded (task_name ?t) ''Shorts''"
    "isExcluded (task_name ?u) ''goose contributions''"
    by code_simp+
  have t: "[] = (case task_tags ?t of None \<Rightarrow> [] | Some ts \<Rightarrow> ts)"
    "[\<lparr>tag_gid = Some ''1208438924809387'', tag_name = Some ''goose''\<rparr>]
       = (case task_tags ?u of None \<Rightarrow> [] | Some ts \<Rightarrow> ts)"
    by simp_all
  have g: "\<not> hasGooseContributionTag
               [\<lparr>tag_gid = Some ''1208438924809387'', tag_name = Some ''goose''\<rparr>]"
    by (simp add: hasGooseContributionTag_def hasPriorityTag_def toLowerCase_def lowerChar_def)
  show ?thesis
    using exclusion_dominance [OF e(1) t(1), of "''Videos''"]
      exclusion_dominance [OF e(2) t(2), of "''Build''"] g
    by simp
qed

text \<open>
  Claim C4 as stated fails under a priority tag: the name has the keyword goose and matches
  the exclusion expression for meetings, and the task is classified to goose contributions.
\<close>

theorem exclusion_dominance_counterexample:
  "strIncludes (toLowerCase ''Fixed the goose bug found in the meeting'') ''goose''
   \<and> isExcluded ''Fixed the goose bug found in the meeting'' ''goose contributions''
   \<and> categorizeTask \<lparr>task_gid = ''t11'', task_name = ''Fixed the goose bug found in the meeting'',
       task_completed_at = None,
       task_tags = Some [\<lparr>tag_gid = Some ''1212903104247031'',
                          tag_name = Some ''goose contribution''\<rparr>],
       task_assignee = None, task_followers = None\<rparr>
     = Inr (Some (Mapping ''Build'' ''goose contributions''))"
  by code_simp


subsection \<open>The loop of the aggregator\<close>

lemma progressGet_progressSet:
  "progressGet P c d \<noteq> None \<Longrightarrow>
     progressGet (progressSet P c d e) c' d'
       = (if c' = c \<and> d' = d then Some e else progressGet P c' d')"
  by (auto simp: progressGet_def progressSet_def split: option.splits)

lemma countTask_progress:
  "progressGet (st_progress (countTask t m st)) c d
     = map_option (\<lambda>e. if keyOf m = (c, d)
                        then e\<lparr>en_completed := en_completed e + 1,
                               en_tasks := en_tasks e @ [taskDataOf t]\<rparr>
                        else e)
         (progressGet (st_progress st) c d)"
proof (cases "progressGet (st_progress st) (fst (keyOf m)) (snd (keyOf m))")
  case None
  then show ?thesis
    by (cases "progressGet (st_progress st) c d") (auto simp: countTask_def keyOf_def Let_def)
next
  case (Some e0)
  then show ?thesis
    by (cases "progressGet (st_progress st) c d")
      (auto simp: countTask_def keyOf_def Let_def progressGet_progressSet)
qed

lemma taskLoop_progress:
  "taskLoop ts st = Inr st' \<Longrightarrow>
     progressGet (st_progress st') c d
       = map_option (\<lambda>e. e\<lparr>en_completed := en_completed e
                                + length (filter (\<lambda>t. taskKey t = Some (c, d)) ts),
                            en_tasks := en_tasks e
                                @ map taskDataOf (filter (\<lambda>t. taskKey t = Some (c, d)) ts)\<rparr>)
           (progressGet (st_progress st) c d)"
proof (induction ts arbitrary: st)
  case Nil
  then show ?case by (cases "progressGet (st_progress st) c d") auto
next
  case (Cons t ts)
  show ?case
  proof (cases "categorizeTask t")
    case (Inl e)
    with Cons.prems show ?thesis by simp
  next
    case (Inr r)
    show ?thesis
    proof (cases r)
      case None
      with Inr Cons show ?thesis by (simp add: taskKey_def)
    next
      case (Some m)
      with Inr Cons.prems have "taskLoop ts (countTask t m st) = Inr st'" by simp
      from Cons.IH [OF this] Inr Some show ?thesis
        by (cases "progressGet (st_progress st) c d")
          (auto simp: countTask_progress taskKey_def)
    qed
  qed
qed

lemma taskLoop_returns:
  "\<forall>t \<in> set ts. categorizeTask t \<noteq> Inl TypeError \<Longrightarrow> \<exists>st'. taskLoop ts st = Inr st'"
proof (induction ts arbitrary: st)
  case Nil
  then show ?case by simp
next
  case (Cons t ts)
  then show ?case
    by (cases "categorizeTask t") (auto split: option.splits, metis error.exhaust)
qed

lemma taskLoop_raises:
  "\<exists>t \<in> set ts. categorizeTask t = Inl TypeError \<Longrightarrow> taskLoop ts st = Inl TypeError"
proof (induction ts arbitrary: st)
  case Nil
  then show ?case by simp
next
  case (Cons t ts)
  show ?case
  proof (cases "categorizeTask t")
    case (Inl e)
    then show ?thesis by (cases e) simp
  next
    case (Inr r)
    with Cons show ?thesis by (cases r) auto
  qed
qed


lemma initDeliverables_get:
  "foldl (\<lambda>m (deliverable, target). m(deliverable \<mapsto> emptyEntry)) m0 ds d
     = (if d \<in> fst ` set ds then Some emptyEntry else m0 d)"
  by (induction ds arbitrary: m0) (auto split: prod.splits)

lemma declaredPairs_fst:
  "(c, d) \<in> set (declaredPairs goals) \<Longrightarrow> c \<in> fst ` set goals"
  by (force simp: declaredPairs_def)

lemma declaredPairs_snoc:
  "declaredPairs (goals @ [(c0, ds)]) = declaredPairs goals @ map (\<lambda>(d, target). (c0, d)) ds"
  by (simp add: declaredPairs_def)

lemma initProgress_snoc:
  "initProgress (goals @ [(c0, ds)])
     = (initProgress goals)(c0 \<mapsto>
          foldl (\<lambda>m (deliverable, target). m(deliverable \<mapsto> emptyEntry)) Map.empty ds)"
  by (simp add: initProgress_def)

lemma initProgress_get:
  "distinct (map fst goals) \<Longrightarrow>
     progressGet (initProgress goals) c d
       = (if (c, d) \<in> set (declaredPairs goals) then Some emptyEntry else None)"
proof (induction goals rule: rev_induct)
  case Nil
  then show ?case by (simp add: initProgress_def progressGet_def declaredPairs_def)
next
  case (snoc x goals)
  obtain c0 ds where x: "x = (c0, ds)" by (cases x)
  from snoc.prems x have dist: "distinct (map fst goals)" and fresh: "c0 \<notin> fst ` set goals"
    by auto
  have old: "progressGet (initProgress goals) c d
               = (if (c, d) \<in> set (declaredPairs goals) then Some emptyEntry else None)"
    using snoc.IH dist by simp
  show ?case
  proof (cases "c = c0")
    case True
    with fresh have "(c, d) \<notin> set (declaredPairs goals)"
      using declaredPairs_fst by blast
    with True x show ?thesis
      by (force simp: initProgress_snoc declaredPairs_snoc progressGet_def initDeliverables_get)
  next
    case False
    with x old show ?thesis
      by (auto simp: initProgress_snoc declaredPairs_snoc progressGet_def)
  qed
qed

lemma populateAgentic_get:
  "progressGet (populateAgentic st) c d
     = (if (c, d) = (''Build'', ''Agentic patterns owned'')
        then map_option (\<lambda>e. e\<lparr>en_completed := length (st_agenticPatternsFound st),
                                en_tasks := st_agenticPatternsTasks st,
                                en_patternsFound := Some (st_agenticPatternsFound st)\<rparr>)
               (progressGet (st_progress st) c d)
        else progressGet (st_progress st) c d)"
proof (cases "progressGet (st_progress st) ''Build'' ''Agentic patterns owned''")
  case None
  then show ?thesis by (auto simp: populateAgentic_def)
next
  case (Some e)
  then show ?thesis
    by (simp add: populateAgentic_def progressGet_progressSet)
qed

text \<open>What the aggregator returns, entry by entry.\<close>

lemma calculateProgress_entries:
  assumes "distinct (map fst goals)" and "\<forall>t \<in> set ts. categorizeTask t \<noteq> Inl TypeError"
  shows "\<exists>P found apTasks. calculateProgress ts goals = Inr P
           \<and> (\<forall>c d. progressGet P c d =
                 (if (c, d) \<notin> set (declaredPairs goals) then None
                  else if (c, d) = (''Build'', ''Agentic patterns owned'')
                  then Some \<lparr>en_completed = length found, en_tasks = apTasks,
                             en_patternsFound = Some found\<rparr>
                  else Some \<lparr>en_completed = length (filter (\<lambda>t. taskKey t = Some (c, d)) ts),
                             en_tasks = map taskDataOf (filter (\<lambda>t. taskKey t = Some (c, d)) ts),
                             en_patternsFound = None\<rparr>))"
proof -
  let ?st0 = "\<lparr>st_progress = initProgress goals, st_agenticPatternsFound = [],
               st_agenticPatternsTasks = []\<rparr>"
  from taskLoop_returns [OF assms(2)] obtain st' where st': "taskLoop ts ?st0 = Inr st'"
    by blast
  have P: "calculateProgress ts goals = Inr (populateAgentic st')"
    using st' by (simp add: calculateProgress_def)
  have "\<forall>c d. progressGet (populateAgentic st') c d =
                 (if (c, d) \<notin> set (declaredPairs goals) then None
                  else if (c, d) = (''Build'', ''Agentic patterns owned'')
                  then Some \<lparr>en_completed = length (st_agenticPatternsFound st'),
                             en_tasks = st_agenticPatternsTasks st',
                             en_patternsFound = Some (st_agenticPatternsFound st')\<rparr>
                  else Some \<lparr>en_completed = length (filter (\<lambda>t. taskKey t = Some (c, d)) ts),
                             en_tasks = map taskDataOf (filter (\<lambda>t. taskKey t = Some (c, d)) ts),
                             en_patternsFound = None\<rparr>)"
    by (simp add: populateAgentic_get taskLoop_progress [OF st'] initProgress_get [OF assms(1)]
          emptyEntry_def)
  with P show ?thesis by blast
qed

subsection \<open>What the classifier can return\<close>

lemma objGet_not_agentic:
  "objGet TAG_CATEGORY_MAP k = Some m \<Longrightarrow> keyOf m \<noteq> (''Build'', ''Agentic patterns owned'')"
  "objGet TAG_NAME_MAP k = Some m \<Longrightarrow> keyOf m \<noteq> (''Build'', ''Agentic patterns owned'')"
proof -
  show "objGet TAG_CATEGORY_MAP k = Some m \<Longrightarrow> keyOf m \<noteq> (''Build'', ''Agentic patterns owned'')"
  proof (cases m)
    case (Mapping c d)
    assume "objGet TAG_CATEGORY_MAP k = Some m"
    with Mapping have "(k, c, d) \<in> set TAG_CATEGORY_MAP"
      by (simp add: objGet_TAG_CATEGORY_MAP_cases)
    then have "d \<noteq> ''Agentic patterns owned''"
      by (auto simp: TAG_CATEGORY_MAP_def)
    with Mapping show ?thesis by (simp add: keyOf_def propKey_def)
  next
    case (Inherited k')
    then show ?thesis by (simp add: keyOf_def propKey_def)
  qed
  show "objGet TAG_NAME_MAP k = Some m \<Longrightarrow> keyOf m \<noteq> (''Build'', ''Agentic patterns owned'')"
  proof (cases m)
    case (Mapping c d)
    assume "objGet TAG_NAME_MAP k = Some m"
    with Mapping have "(k, c, d) \<in> set TAG_NAME_MAP"
      by (simp add: objGet_TAG_NAME_MAP_cases)
    then have "d \<noteq> ''Agentic patterns owned''"
      by (auto simp: TAG_NAME_MAP_def)
    with Mapping show ?thesis by (simp add: keyOf_def propKey_def)
  next
    case (Inherited k')
    then show ?thesis by (simp add: keyOf_def propKey_def)
  qed
qed

lemma phase1Tag_result:
  "phase1Tag tags tn n g = Some m \<Longrightarrow>
     m = Mapping ''Videos'' ''Shorts'' \<or> m = Mapping ''Videos'' ''Tutorial videos''
     \<or> m = Mapping ''Documentation'' ''Docs'' \<or> m = Mapping ''Build'' ''goose contributions''
     \<or> objGet TAG_CATEGORY_MAP (propKey (tag_gid g)) = Some m"
  by (simp add: phase1Tag_def split: option.splits if_splits)

lemma phase2Tag_result:
  "phase2Tag n g = Inr (Some m) \<Longrightarrow>
     m = Mapping ''Build'' ''goose contributions''
     \<or> (\<exists>k. objGet TAG_NAME_MAP k = Some m)"
  by (simp add: phase2Tag_def Let_def split: option.splits if_splits) blast+

lemma fixed_not_agentic:
  "keyOf (Mapping ''Videos'' ''Shorts'') \<noteq> (''Build'', ''Agentic patterns owned'')"
  "keyOf (Mapping ''Videos'' ''Tutorial videos'') \<noteq> (''Build'', ''Agentic patterns owned'')"
  "keyOf (Mapping ''Documentation'' ''Docs'') \<noteq> (''Build'', ''Agentic patterns owned'')"
  "keyOf (Mapping ''Build'' ''goose contributions'') \<noteq> (''Build'', ''Agentic patterns owned'')"
  "keyOf (Mapping ''Build'' ''Side projects'') \<noteq> (''Build'', ''Agentic patterns owned'')"
  "keyOf (Mapping ''Public Speaking'' ''CFPs (submitted or accepted)'')
     \<noteq> (''Build'', ''Agentic patterns owned'')"
  by (simp_all add: keyOf_def propKey_def)

lemma phase1Tag_not_agentic:
  "phase1Tag tags tn n g = Some m \<Longrightarrow> keyOf m \<noteq> (''Build'', ''Agentic patterns owned'')"
  using phase1Tag_result [of tags tn n g m] objGet_not_agentic(1) fixed_not_agentic
  by blast

lemma phase2Tag_not_agentic:
  "phase2Tag n g = Inr (Some m) \<Longrightarrow> keyOf m \<noteq> (''Build'', ''Agentic patterns owned'')"
  using phase2Tag_result [of n g m] objGet_not_agentic(2) fixed_not_agentic
  by blast

lemma phase3_not_agentic:
  "phase3 tn n = Some m \<Longrightarrow> keyOf m \<noteq> (''Build'', ''Agentic patterns owned'')"
  by (simp add: phase3_def split: if_splits; clarsimp simp: keyOf_def propKey_def)

lemma categorizeTask_result:
  assumes "categorizeTask t = Inr (Some m)"
    and "tags = (case task_tags t of None \<Rightarrow> [] | Some ts \<Rightarrow> ts)"
  shows "m = Mapping ''Build'' ''Side projects''
         \<or> m = Mapping ''Public Speaking'' ''CFPs (submitted or accepted)''
         \<or> m = Mapping ''Build'' ''goose contributions''
         \<or> phase1 tags (toLowerCase (task_name t)) (task_name t) tags = Some m
         \<or> phase2 (task_name t) tags = Inr (Some m)
         \<or> phase3 (toLowerCase (task_name t)) (task_name t) = Some m"
  using assms
  by (simp add: categorizeTask_def Let_def split: if_splits option.splits sum.splits)

text \<open>
  No task is classified to Build / Agentic patterns owned: that count is derived, not
  classified.
\<close>

lemma taskKey_not_agentic:
  "taskKey t \<noteq> Some (''Build'', ''Agentic patterns owned'')"
proof
  assume "taskKey t = Some (''Build'', ''Agentic patterns owned'')"
  then obtain m where m: "categorizeTask t = Inr (Some m)"
    and k: "keyOf m = (''Build'', ''Agentic patterns owned'')"
    by (auto simp: taskKey_def split: sum.splits option.splits)
  let ?tags = "case task_tags t of None \<Rightarrow> [] | Some ts \<Rightarrow> ts"
  let ?n = "task_name t" and ?tn = "toLowerCase (task_name t)"
  have p1: "phase1 ?tags ?tn ?n ?tags \<noteq> Some m"
    using phase1_Some phase1Tag_not_agentic k by blast
  have p2: "phase2 ?n ?tags \<noteq> Inr (Some m)"
    using phase2_Some phase2Tag_not_agentic k by blast
  have p3: "phase3 ?tn ?n \<noteq> Some m"
    using phase3_not_agentic k by blast
  from categorizeTask_result [OF m refl] k p1 p2 p3 fixed_not_agentic show False
    by metis
qed

text \<open>A task all of whose tags have a name is classified without a fault.\<close>

lemma phase2_named:
  "\<forall>g \<in> set rest. tag_name g \<noteq> None \<Longrightarrow> phase2 n rest \<noteq> Inl e"
proof (induction rest)
  case Nil
  then show ?case by simp
next
  case (Cons g rest)
  then have "phase2Tag n g \<noteq> Inl e"
    by (auto simp: phase2Tag_def Let_def split: option.splits)
  with Cons show ?case
    by (cases "phase2Tag n g") (auto split: option.splits)
qed

lemma categorizeTask_named:
  assumes "\<forall>g \<in> set (case task_tags t of None \<Rightarrow> [] | Some ts \<Rightarrow> ts). tag_name g \<noteq> None"
  shows "categorizeTask t \<noteq> Inl e"
  using phase2_named [OF assms, of "task_name t" e]
  by (auto simp: categorizeTask_def Let_def split: option.splits sum.splits)

lemma distinct_declaredPairs:
  "wfGoals goals \<Longrightarrow> distinct (declaredPairs goals)"
proof (induction goals)
  case Nil
  then show ?case by (simp add: declaredPairs_def)
next
  case (Cons x goals)
  obtain c ds where x: "x = (c, ds)" by (cases x)
  from Cons.prems x have wf: "wfGoals goals" and ds: "distinct (map fst ds)"
    and fresh: "c \<notin> fst ` set goals"
    by (auto simp: wfGoals_def)
  have split: "declaredPairs (x # goals) = map (\<lambda>(d, target). (c, d)) ds @ declaredPairs goals"
    using x by (simp add: declaredPairs_def)
  have "map (\<lambda>(d, target). (c, d)) ds = map (Pair c) (map fst ds)"
    by (induction ds) auto
  with ds have "distinct (map (\<lambda>(d, target). (c, d)) ds)"
    by (simp add: distinct_map inj_on_def)
  moreover have "set (map (\<lambda>(d, target). (c, d)) ds) \<inter> set (declaredPairs goals) = {}"
    using fresh declaredPairs_fst by fastforce
  ultimately show ?case
    using Cons.IH [OF wf] split by simp
qed

lemma sum_counts:
  "distinct L \<Longrightarrow>
     sum_list (map (\<lambda>p. length (filter (\<lambda>t. f t = Some p) ts)) L)
       = length (filter (\<lambda>t. case f t of None \<Rightarrow> False | Some k \<Rightarrow> k \<in> set L) ts)"
proof (induction L)
  case Nil
  then show ?case by (simp split: option.splits)
next
  case (Cons p L)
  then have "p \<notin> set L" and IH: "sum_list (map (\<lambda>p. length (filter (\<lambda>t. f t = Some p) ts)) L)
       = length (filter (\<lambda>t. case f t of None \<Rightarrow> False | Some k \<Rightarrow> k \<in> set L) ts)"
    by simp_all
  have "length (filter (\<lambda>t. f t = Some p) ts)
          + length (filter (\<lambda>t. case f t of None \<Rightarrow> False | Some k \<Rightarrow> k \<in> set L) ts)
        = length (filter (\<lambda>t. case f t of None \<Rightarrow> False | Some k \<Rightarrow> k \<in> set (p # L)) ts)"
    using \<open>p \<notin> set L\<close> by (induction ts) (auto split: option.splits)
  with IH show ?case by simp
qed

subsection \<open>The shape of the progress object\<close>

text \<open>
  Claim C10. For a goal spec (an object: distinct keys) and a task list on which the
  classifier does not raise, the aggregator returns a progress object that has an entry for
  a pair exactly when the goal spec declares the pair; and for every pair but Build /
  Agentic patterns owned the completed count is the length of the list of contributing
  tasks, which holds the records of the tasks classified to the pair, in the order of the
  input list.
\<close>

theorem progress_shape:
  assumes "wfGoals goals" and "\<forall>t \<in> set ts. categorizeTask t \<noteq> Inl TypeError"
  shows "\<exists>P. calculateProgress ts goals = Inr P
           \<and> (\<forall>c d. (progressGet P c d \<noteq> None) = ((c, d) \<in> set (declaredPairs goals)))
           \<and> (\<forall>c d e. progressGet P c d = Some e
                        \<and> (c, d) \<noteq> (''Build'', ''Agentic patterns owned'')
                 \<longrightarrow> en_completed e = length (en_tasks e)
                     \<and> en_tasks e = map taskDataOf (filter (\<lambda>t. taskKey t = Some (c, d)) ts))"
proof -
  from assms(1) have "distinct (map fst goals)" by (simp add: wfGoals_def)
  from calculateProgress_entries [OF this assms(2)]
  obtain P found apTasks where P: "calculateProgress ts goals = Inr P"
    and E: "\<forall>c d. progressGet P c d =
                 (if (c, d) \<notin> set (declaredPairs goals) then None
                  else if (c, d) = (''Build'', ''Agentic patterns owned'')
                  then Some \<lparr>en_completed = length found, en_tasks = apTasks,
                             en_patternsFound = Some found\<rparr>
                  else Some \<lparr>en_completed = length (filter (\<lambda>t. taskKey t = Some (c, d)) ts),
                             en_tasks = map taskDataOf (filter (\<lambda>t. taskKey t = Some (c, d)) ts),
                             en_patternsFound = None\<rparr>)"
    by blast
  have 1: "\<forall>c d. (progressGet P c d \<noteq> None) = ((c, d) \<in> set (declaredPairs goals))"
    using E by simp
  have 2: "\<forall>c d e. progressGet P c d = Some e
                        \<and> (c, d) \<noteq> (''Build'', ''Agentic patterns owned'')
                 \<longrightarrow> en_completed e = length (en_tasks e)
                     \<and> en_tasks e = map taskDataOf (filter (\<lambda>t. taskKey t = Some (c, d)) ts)"
  proof (intro allI impI)
    fix c d e
    assume a: "progressGet P c d = Some e \<and> (c, d) \<noteq> (''Build'', ''Agentic patterns owned'')"
    with E have "e = \<lparr>en_completed = length (filter (\<lambda>t. taskKey t = Some (c, d)) ts),
                             en_tasks = map taskDataOf (filter (\<lambda>t. taskKey t = Some (c, d)) ts),
                             en_patternsFound = None\<rparr>"
      by (metis option.distinct(1) option.inject)
    then show "en_completed e = length (en_tasks e)
                     \<and> en_tasks e = map taskDataOf (filter (\<lambda>t. taskKey t = Some (c, d)) ts)"
      by simp
  qed
  from P 1 2 show ?thesis by blast
qed

text \<open>One blog task and a goal spec with two pairs.\<close>

theorem progress_shape_witness:
  "\<exists>P. calculateProgress
          [\<lparr>task_gid = ''t12'', task_name = ''Wrote a blog post on MCP apps'',
             task_completed_at = Some ''2026-01-15T10:00:00.000Z'', task_tags = Some [],
             task_assignee = Some ''Rizel'', task_followers = None\<rparr>]
          [(''Build'', [(''Agentic patterns owned'', Some 4)]), (''Blogs'', [(''Blog posts'', Some 10)])]
        = Inr P
      \<and> (\<forall>c d. (progressGet P c d \<noteq> None)
                 = ((c, d) \<in> {(''Build'', ''Agentic patterns owned''), (''Blogs'', ''Blog posts'')}))
      \<and> (\<forall>c d e. progressGet P c d = Some e
                   \<and> (c, d) \<noteq> (''Build'', ''Agentic patterns owned'')
            \<longrightarrow> en_completed e = length (en_tasks e)
                \<and> en_tasks e = map taskDataOf
                     (filter (\<lambda>t. taskKey t = Some (c, d))
                        [\<lparr>task_gid = ''t12'', task_name = ''Wrote a blog post on MCP apps'',
                           task_completed_at = Some ''2026-01-15T10:00:00.000Z'',
                           task_tags = Some [],
                           task_assignee = Some ''Rizel'', task_followers = None\<rparr>]))"
proof -
  let ?t = "\<lparr>task_gid = ''t12'', task_name = ''Wrote a blog post on MCP apps'',
             task_completed_at = Some ''2026-01-15T10:00:00.000Z'', task_tags = Some [],
             task_assignee = Some ''Rizel'', task_followers = None\<rparr>"
  let ?g = "[(''Build'', [(''Agentic patterns owned'', Some (4::nat))]),
             (''Blogs'', [(''Blog posts'', Some 10)])]"
  have wf: "wfGoals ?g" by (simp add: wfGoals_def)
  have nf: "\<forall>t \<in> set [?t]. categorizeTask t \<noteq> Inl TypeError"
    using categorizeTask_named [of ?t] by simp
  have dp: "set (declaredPairs ?g)
              = {(''Build'', ''Agentic patterns owned''), (''Blogs'', ''Blog posts'')}"
    by (simp add: declaredPairs_def)
  from progress_shape [OF wf nf] show ?thesis
    unfolding dp .
qed

subsection \<open>The total of the completed counts\<close>

text \<open>
  Claim C1, as amended. For a goal spec and a task list on which the classifier does not
  raise, the aggregator returns a progress object in which the completed counts of the
  declared pairs other than Build / Agentic patterns owned add up to the number of input
  tasks whose classification is a declared pair. (The count of Build / Agentic patterns
  owned is not a number of tasks: it is overwritten with the number of distinct patterns
  found.)
\<close>

theorem completed_sum_is_classified_count:
  assumes "wfGoals goals" and "\<forall>t \<in> set ts. categorizeTask t \<noteq> Inl TypeError"
  shows "\<exists>P. calculateProgress ts goals = Inr P
           \<and> completedSum P (removeAll (''Build'', ''Agentic patterns owned'') (declaredPairs goals))
               = classifiedInto (declaredPairs goals) ts"
proof -
  let ?apo = "(''Build'', ''Agentic patterns owned'')"
  let ?L = "removeAll ?apo (declaredPairs goals)"
  from assms(1) have "distinct (map fst goals)" by (simp add: wfGoals_def)
  from calculateProgress_entries [OF this assms(2)]
  obtain P found apTasks where P: "calculateProgress ts goals = Inr P"
    and E: "\<forall>c d. progressGet P c d =
                 (if (c, d) \<notin> set (declaredPairs goals) then None
                  else if (c, d) = ?apo
                  then Some \<lparr>en_completed = length found, en_tasks = apTasks,
                             en_patternsFound = Some found\<rparr>
                  else Some \<lparr>en_completed = length (filter (\<lambda>t. taskKey t = Some (c, d)) ts),
                             en_tasks = map taskDataOf (filter (\<lambda>t. taskKey t = Some (c, d)) ts),
                             en_patternsFound = None\<rparr>)"
    by blast
  have dist: "distinct ?L"
    using distinct_declaredPairs [OF assms(1)] by (simp add: distinct_removeAll)
  have "map (\<lambda>(c, d). case progressGet P c d of None \<Rightarrow> 0 | Some e \<Rightarrow> en_completed e) ?L
          = map (\<lambda>p. length (filter (\<lambda>t. taskKey t = Some p) ts)) ?L"
  proof (rule map_cong [OF refl])
    fix p assume "p \<in> set ?L"
    then have "p \<in> set (declaredPairs goals)" "p \<noteq> ?apo" by auto
    with E show "(case p of (c, d) \<Rightarrow>
                    case progressGet P c d of None \<Rightarrow> 0 | Some e \<Rightarrow> en_completed e)
                 = length (filter (\<lambda>t. taskKey t = Some p) ts)"
      by (cases p) auto
  qed
  then have "completedSum P ?L
               = sum_list (map (\<lambda>p. length (filter (\<lambda>t. taskKey t = Some p) ts)) ?L)"
    by (simp only: completedSum_def)
  also have "\<dots> = length (filter (\<lambda>t. case taskKey t of None \<Rightarrow> False | Some k \<Rightarrow> k \<in> set ?L) ts)"
    by (rule sum_counts [OF dist])
  also have "\<dots> = classifiedInto (declaredPairs goals) ts"
  proof -
    have "\<And>t. (case taskKey t of None \<Rightarrow> False | Some k \<Rightarrow> k \<in> set ?L)
                = (case taskKey t of None \<Rightarrow> False | Some k \<Rightarrow> k \<in> set (declaredPairs goals))"
      using taskKey_not_agentic by (auto split: option.splits)
    then show ?thesis by (simp add: classifiedInto_def)
  qed
  finally show ?thesis using P by blast
qed

text \<open>One blog task and a goal spec with two pairs.\<close>

theorem completed_sum_is_classified_count_witness:
  "\<exists>P. calculateProgress
          [\<lparr>task_gid = ''t12'', task_name = ''Wrote a blog post on MCP apps'',
             task_completed_at = Some ''2026-01-15T10:00:00.000Z'', task_tags = Some [],
             task_assignee = Some ''Rizel'', task_followers = None\<rparr>]
          [(''Build'', [(''Agentic patterns owned'', Some 4)]), (''Blogs'', [(''Blog posts'', Some 10)])]
        = Inr P
      \<and> completedSum P [(''Blogs'', ''Blog posts'')]
          = classifiedInto [(''Build'', ''Agentic patterns owned''), (''Blogs'', ''Blog posts'')]
              [\<lparr>task_gid = ''t12'', task_name = ''Wrote a blog post on MCP apps'',
                 task_completed_at = Some ''2026-01-15T10:00:00.000Z'', task_tags = Some [],
                 task_assignee = Some ''Rizel'', task_followers = None\<rparr>]"
proof -
  let ?t = "\<lparr>task_gid = ''t12'', task_name = ''Wrote a blog post on MCP apps'',
             task_completed_at = Some ''2026-01-15T10:00:00.000Z'', task_tags = Some [],
             task_assignee = Some ''Rizel'', task_followers = None\<rparr>"
  let ?g = "[(''Build'', [(''Agentic patterns owned'', Some (4::nat))]),
             (''Blogs'', [(''Blog posts'', Some 10)])]"
  have wf: "wfGoals ?g" by (simp add: wfGoals_def)
  have nf: "\<forall>t \<in> set [?t]. categorizeTask t \<noteq> Inl TypeError"
    using categorizeTask_named [of ?t] by simp
  have dp: "declaredPairs ?g = [(''Build'', ''Agentic patterns owned''), (''Blogs'', ''Blog posts'')]"
    by (simp add: declaredPairs_def)
  from completed_sum_is_classified_count [OF wf nf] show ?thesis
    unfolding dp by simp
qed

text \<open>
  Claim C1 as stated fails when the goal spec declares Build / Agentic patterns owned and
  a content task mentions a pattern: here one task is classified to a declared pair, and
  the completed counts of the declared pairs add up to two.
\<close>

theorem completed_sum_counterexample:
  "\<not> isl (calculateProgress
      [\<lparr>task_gid = ''t12'', task_name = ''Wrote a blog post on MCP apps'',
         task_completed_at = Some ''2026-01-15T10:00:00.000Z'', task_tags = Some [],
         task_assignee = Some ''Rizel'', task_followers = None\<rparr>]
      [(''Build'', [(''Agentic patterns owned'', Some 4)]), (''Blogs'', [(''Blog posts'', Some 10)])])
   \<and> completedSum
       (projr (calculateProgress
          [\<lparr>task_gid = ''t12'', task_name = ''Wrote a blog post on MCP apps'',
             task_completed_at = Some ''2026-01-15T10:00:00.000Z'', task_tags = Some [],
             task_assignee = Some ''Rizel'', task_followers = None\<rparr>]
          [(''Build'', [(''Agentic patterns owned'', Some 4)]), (''Blogs'', [(''Blog posts'', Some 10)])]))
       (declaredPairs
          [(''Build'', [(''Agentic patterns owned'', Some 4)]), (''Blogs'', [(''Blog posts'', Some 10)])])
     = 2
   \<and> classifiedInto
       (declaredPairs
          [(''Build'', [(''Agentic patterns owned'', Some 4)]), (''Blogs'', [(''Blog posts'', Some 10)])])
       [\<lparr>task_gid = ''t12'', task_name = ''Wrote a blog post on MCP apps'',
          task_completed_at = Some ''2026-01-15T10:00:00.000Z'', task_tags = Some [],
          task_assignee = Some ''Rizel'', task_followers = None\<rparr>]
     = 1"
  by code_simp

subsection \<open>The set of patterns found\<close>

lemma set_foldl_setAdd:
  "set (foldl setAdd found ps) = set found \<union> set ps"
  by (induction ps arbitrary: found) (auto simp: setAdd_def)

lemma distinct_foldl_setAdd:
  "distinct found \<Longrightarrow> distinct (foldl setAdd found ps)"
  by (induction ps arbitrary: found) (auto simp: setAdd_def)

lemma countTask_found:
  assumes "\<forall>c d. (progressGet (st_progress st) c d \<noteq> None) = ((c, d) \<in> D)"
    and "categorizeTask t = Inr (Some m)"
  shows "set (st_agenticPatternsFound (countTask t m st))
           = set (st_agenticPatternsFound st) \<union> patternsOfTask D t"
    and "distinct (st_agenticPatternsFound st)
           \<Longrightarrow> distinct (st_agenticPatternsFound (countTask t m st))"
proof -
  have k: "(progressGet (st_progress st) (propKey (mapping_category m))
              (propKey (mapping_deliverable m)) \<noteq> None) = (keyOf m \<in> D)"
    using assms(1) by (simp add: keyOf_def)
  show "set (st_agenticPatternsFound (countTask t m st))
           = set (st_agenticPatternsFound st) \<union> patternsOfTask D t"
    using k assms(2)
    by (cases "progressGet (st_progress st) (propKey (mapping_category m))
                 (propKey (mapping_deliverable m))")
      (auto simp: countTask_def patternsOfTask_def Let_def taskDataOf_def set_foldl_setAdd
         split: option.splits)
  show "distinct (st_agenticPatternsFound st)
           \<Longrightarrow> distinct (st_agenticPatternsFound (countTask t m st))"
    by (cases "progressGet (st_progress st) (propKey (mapping_category m))
                 (propKey (mapping_deliverable m))")
      (auto simp: countTask_def Let_def distinct_foldl_setAdd)
qed

lemma countTask_dom:
  "(progressGet (st_progress (countTask t m st)) c d \<noteq> None)
     = (progressGet (st_progress st) c d \<noteq> None)"
  by (simp add: countTask_progress)

lemma taskLoop_found:
  assumes "taskLoop ts st = Inr st'"
    and "\<forall>c d. (progressGet (st_progress st) c d \<noteq> None) = ((c, d) \<in> D)"
  shows "set (st_agenticPatternsFound st')
           = set (st_agenticPatternsFound st) \<union> (\<Union>t \<in> set ts. patternsOfTask D t)
         \<and> (distinct (st_agenticPatternsFound st) \<longrightarrow> distinct (st_agenticPatternsFound st'))"
  using assms
proof (induction ts arbitrary: st)
  case Nil
  then show ?case by simp
next
  case (Cons t ts)
  show ?case
  proof (cases "categorizeTask t")
    case (Inl e)
    with Cons.prems show ?thesis by simp
  next
    case (Inr r)
    show ?thesis
    proof (cases r)
      case None
      with Inr Cons.prems have "taskLoop ts st = Inr st'" by simp
      from Cons.IH [OF this Cons.prems(2)] Inr None show ?thesis
        by (simp add: patternsOfTask_def)
    next
      case (Some m)
      with Inr Cons.prems have l: "taskLoop ts (countTask t m st) = Inr st'" by simp
      have d: "\<forall>c d. (progressGet (st_progress (countTask t m st)) c d \<noteq> None) = ((c, d) \<in> D)"
        using Cons.prems(2) by (simp only: countTask_dom) simp
      have c: "categorizeTask t = Inr (Some m)" using Inr Some by simp
      from Cons.IH [OF l d] countTask_found [OF Cons.prems(2) c] show ?thesis
        by auto
    qed
  qed
qed

text \<open>The derived aggregate is a function of the set of the tasks.\<close>

lemma agenticPatternsOwned_set:
  assumes "calculateProgress ts goals = Inr P"
  shows "agenticPatternsOwned P
           = (if progressGet (initProgress goals) ''Build'' ''Agentic patterns owned'' = None
              then None
              else Some (card (\<Union>t \<in> set ts.
                           patternsOfTask {(c, d). progressGet (initProgress goals) c d \<noteq> None} t),
                         \<Union>t \<in> set ts.
                           patternsOfTask {(c, d). progressGet (initProgress goals) c d \<noteq> None} t))"
proof -
  let ?st0 = "\<lparr>st_progress = initProgress goals, st_agenticPatternsFound = [],
               st_agenticPatternsTasks = []\<rparr>"
  let ?D = "{(c, d). progressGet (initProgress goals) c d \<noteq> None}"
  from assms obtain st' where st': "taskLoop ts ?st0 = Inr st'" and P: "P = populateAgentic st'"
    by (auto simp: calculateProgress_def split: sum.splits)
  have "\<forall>c d. (progressGet (st_progress ?st0) c d \<noteq> None) = ((c, d) \<in> ?D)"
    by simp
  from taskLoop_found [OF st' this]
  have s: "set (st_agenticPatternsFound st') = (\<Union>t \<in> set ts. patternsOfTask ?D t)"
    and di: "distinct (st_agenticPatternsFound st')"
    by simp_all
  have len: "length (st_agenticPatternsFound st') = card (\<Union>t \<in> set ts. patternsOfTask ?D t)"
    using s di distinct_card by fastforce
  have g: "progressGet (st_progress st') ''Build'' ''Agentic patterns owned''
             = map_option (\<lambda>e. e\<lparr>en_completed := en_completed e
                                + length (filter (\<lambda>t. taskKey t = Some (''Build'', ''Agentic patterns owned'')) ts),
                            en_tasks := en_tasks e
                                @ map taskDataOf (filter (\<lambda>t. taskKey t = Some (''Build'', ''Agentic patterns owned'')) ts)\<rparr>)
                 (progressGet (initProgress goals) ''Build'' ''Agentic patterns owned'')"
    using taskLoop_progress [OF st'] by simp
  show ?thesis
  proof (cases "progressGet (initProgress goals) ''Build'' ''Agentic patterns owned''")
    case None
    with g P show ?thesis
      by (simp add: agenticPatternsOwned_def populateAgentic_get)
  next
    case (Some e)
    have "agenticPatternsOwned P
            = Some (length (st_agenticPatternsFound st'), set (st_agenticPatternsFound st'))"
      using Some g P by (simp add: agenticPatternsOwned_def populateAgentic_get)
    with Some show ?thesis
      by (simp only: s len) simp
  qed
qed

text \<open>
  Claim C9. The count and the set of patterns of Build / Agentic patterns owned that the
  aggregator derives are the same for a task list and for any permutation of it (and, the
  aggregator being a function of its arguments, the same each time it runs on one list);
  when a task makes the classifier raise, the aggregator raises for every permutation.
\<close>

theorem agentic_patterns_permutation_invariant:
  assumes "mset ts' = mset ts"
  shows "map_sum id agenticPatternsOwned (calculateProgress ts' goals)
           = map_sum id agenticPatternsOwned (calculateProgress ts goals)"
proof -
  from assms have set: "set ts' = set ts" by (rule mset_eq_setD)
  let ?st0 = "\<lparr>st_progress = initProgress goals, st_agenticPatternsFound = [],
               st_agenticPatternsTasks = []\<rparr>"
  show ?thesis
  proof (cases "\<exists>t \<in> set ts. categorizeTask t = Inl TypeError")
    case True
    then have "taskLoop ts ?st0 = Inl TypeError" "taskLoop ts' ?st0 = Inl TypeError"
      using set taskLoop_raises by simp_all
    then show ?thesis by (simp add: calculateProgress_def)
  next
    case False
    then have "\<forall>t \<in> set ts. categorizeTask t \<noteq> Inl TypeError"
      "\<forall>t \<in> set ts'. categorizeTask t \<noteq> Inl TypeError"
      using set by simp_all
    then obtain st1 st2 where "taskLoop ts ?st0 = Inr st1" "taskLoop ts' ?st0 = Inr st2"
      using taskLoop_returns by blast
    then have "calculateProgress ts goals = Inr (populateAgentic st1)"
      "calculateProgress ts' goals = Inr (populateAgentic st2)"
      by (simp_all add: calculateProgress_def)
    then show ?thesis
      using agenticPatternsOwned_set set by simp
  qed
qed

text \<open>Two content tasks in either order: two patterns, whichever comes first.\<close>

theorem agentic_patterns_permutation_invariant_witness:
  "map_sum id agenticPatternsOwned
     (calculateProgress
        [\<lparr>task_gid = ''t12'', task_name = ''Wrote a blog post on MCP apps'',
           task_completed_at = None, task_tags = Some [],
           task_assignee = None, task_followers = None\<rparr>,
         \<lparr>task_gid = ''t13'', task_name = ''Recorded a tutorial video on skills'',
           task_completed_at = None, task_tags = Some [],
           task_assignee = None, task_followers = None\<rparr>]
        [(''Build'', [(''Agentic patterns owned'', Some 4)]), (''Blogs'', [(''Blog posts'', Some 10)]),
         (''Videos'', [(''Tutorial videos'', Some 4)])])
   = map_sum id agenticPatternsOwned
     (calculateProgress
        [\<lparr>task_gid = ''t13'', task_name = ''Recorded a tutorial video on skills'',
           task_completed_at = None, task_tags = Some [],
           task_assignee = None, task_followers = None\<rparr>,
         \<lparr>task_gid = ''t12'', task_name = ''Wrote a blog post on MCP apps'',
           task_completed_at = None, task_tags = Some [],
           task_assignee = None, task_followers = None\<rparr>]
        [(''Build'', [(''Agentic patterns owned'', Some 4)]), (''Blogs'', [(''Blog posts'', Some 10)]),
         (''Videos'', [(''Tutorial videos'', Some 4)])])
   \<and> map_sum id agenticPatternsOwned
     (calculateProgress
        [\<lparr>task_gid = ''t13'', task_name = ''Recorded a tutorial video on skills'',
           task_completed_at = None, task_tags = Some [],
           task_assignee = None, task_followers = None\<rparr>,
         \<lparr>task_gid = ''t12'', task_name = ''Wrote a blog post on MCP apps'',
           task_completed_at = None, task_tags = Some [],
           task_assignee = None, task_followers = None\<rparr>]
        [(''Build'', [(''Agentic patterns owned'', Some 4)]), (''Blogs'', [(''Blog posts'', Some 10)]),
         (''Videos'', [(''Tutorial videos'', Some 4)])])
   = Inr (Some (2, {''Skills'', ''MCP Apps''}))"
proof (rule conjI)
  show "map_sum id agenticPatternsOwned
     (calculateProgress
        [\<lparr>task_gid = ''t12'', task_name = ''Wrote a blog post on MCP apps'',
           task_completed_at = None, task_tags = Some [],
           task_assignee = None, task_followers = None\<rparr>,
         \<lparr>task_gid = ''t13'', task_name = ''Recorded a tutorial video on skills'',
           task_completed_at = None, task_tags = Some [],
           task_assignee = None, task_followers = None\<rparr>]
        [(''Build'', [(''Agentic patterns owned'', Some 4)]), (''Blogs'', [(''Blog posts'', Some 10)]),
         (''Videos'', [(''Tutorial videos'', Some 4)])])
   = map_sum id agenticPatternsOwned
     (calculateProgress
        [\<lparr>task_gid = ''t13'', task_name = ''Recorded a tutorial video on skills'',
           task_completed_at = None, task_tags = Some [],
           task_assignee = None, task_followers = None\<rparr>,
         \<lparr>task_gid = ''t12'', task_name = ''Wrote a blog post on MCP apps'',
           task_completed_at = None, task_tags = Some [],
           task_assignee = None, task_followers = None\<rparr>]
        [(''Build'', [(''Agentic patterns owned'', Some 4)]), (''Blogs'', [(''Blog posts'', Some 10)]),
         (''Videos'', [(''Tutorial videos'', Some 4)])])"
    by (rule agentic_patterns_permutation_invariant) simp
  show "map_sum id agenticPatternsOwned
     (calculateProgress
        [\<lparr>task_gid = ''t13'', task_name = ''Recorded a tutorial video on skills'',
           task_completed_at = None, task_tags = Some [],
           task_assignee = None, task_followers = None\<rparr>,
         \<lparr>task_gid = ''t12'', task_name = ''Wrote a blog post on MCP apps'',
           task_completed_at = None, task_tags = Some [],
           task_assignee = None, task_followers = None\<rparr>]
        [(''Build'', [(''Agentic patterns owned'', Some 4)]), (''Blogs'', [(''Blog posts'', Some 10)]),
         (''Videos'', [(''Tutorial videos'', Some 4)])])
   = Inr (Some (2, {''Skills'', ''MCP Apps''}))"
    by code_simp
qed

subsection \<open>Excluded assignees\<close>

lemma uniqueTasks_seen_set:
  "set seen = set seen' \<Longrightarrow> uniqueTasks seen ts = uniqueTasks seen' ts"
proof (induction ts arbitrary: seen seen')
  case Nil
  then show ?case by simp
next
  case (Cons t ts)
  have 1: "uniqueTasks (seen @ [task_gid t]) ts = uniqueTasks (seen' @ [task_gid t]) ts"
    using Cons.prems by (intro Cons.IH) simp
  have 2: "uniqueTasks seen ts = uniqueTasks seen' ts"
    using Cons.prems by (rule Cons.IH)
  from 1 2 Cons.prems show ?case by simp
qed

text \<open>
  An identifier that is already seen changes nothing after the filter, when the records
  that carry it are dropped by the filter anyway.
\<close>

lemma filter_uniqueTasks_seen:
  assumes "\<forall>u \<in> set ts. task_gid u = g \<longrightarrow> \<not> keepsAssignee u"
  shows "filter keepsAssignee (uniqueTasks (seen @ [g]) ts)
           = filter keepsAssignee (uniqueTasks seen ts)"
  using assms
proof (induction ts arbitrary: seen)
  case Nil
  then show ?case by simp
next
  case (Cons u ts)
  then have rest: "\<forall>u \<in> set ts. task_gid u = g \<longrightarrow> \<not> keepsAssignee u" by simp
  show ?case
  proof (cases "task_gid u = g")
    case True
    with Cons.prems have "\<not> keepsAssignee u" by simp
    with True Cons.IH [OF rest, of seen] show ?thesis by simp
  next
    case False
    have "uniqueTasks ((seen @ [g]) @ [task_gid u]) ts
            = uniqueTasks ((seen @ [task_gid u]) @ [g]) ts"
      by (rule uniqueTasks_seen_set) auto
    with False Cons.IH [OF rest, of "seen @ [task_gid u]"] Cons.IH [OF rest, of seen]
    show ?thesis by simp
  qed
qed

lemma filter_uniqueTasks_drop:
  assumes "\<not> keepsAssignee t"
    and "\<forall>u \<in> set ys. task_gid u = task_gid t \<longrightarrow> \<not> keepsAssignee u"
  shows "filter keepsAssignee (uniqueTasks seen (xs @ t # ys))
           = filter keepsAssignee (uniqueTasks seen (xs @ ys))"
proof (induction xs arbitrary: seen)
  case Nil
  show ?case
    using assms filter_uniqueTasks_seen [OF assms(2), of seen] by simp
next
  case (Cons x xs)
  then show ?case by simp
qed

text \<open>
  Claim C6. A task whose assignee is on the list of excluded assignees is never among
  the tasks that the search hands to the aggregator, so it is not classified; and the
  aggregated progress is the same with the task in the fetched list as without it, in
  every count of every deliverable (the records that share its identifier further on in
  the list, duplicates of the task, carrying the same assignee). A task without assignee is
  never dropped by the filter: it is handed on whenever the removal of duplicates keeps it.
\<close>

theorem excluded_assignee_contributes_nothing:
  "(task_assignee t = Some a \<and> a \<in> set EXCLUDED_ASSIGNEES
     \<longrightarrow> t \<notin> set (filteredTasks fetched))
   \<and> (task_assignee t = Some a \<and> a \<in> set EXCLUDED_ASSIGNEES
      \<and> (\<forall>u \<in> set ys. task_gid u = task_gid t \<longrightarrow> task_assignee u = task_assignee t)
     \<longrightarrow> calculateProgress (filteredTasks (xs @ t # ys)) goals
           = calculateProgress (filteredTasks (xs @ ys)) goals)
   \<and> (task_assignee u = None
     \<longrightarrow> (u \<in> set (filteredTasks zs)) = (u \<in> set (uniqueTasks [] zs)))"
proof (intro conjI impI)
  assume "task_assignee t = Some a \<and> a \<in> set EXCLUDED_ASSIGNEES"
  moreover from this have "a \<noteq> []" by (auto simp: EXCLUDED_ASSIGNEES_def)
  ultimately have "\<not> keepsAssignee t" by (simp add: keepsAssignee_def)
  then show "t \<notin> set (filteredTasks fetched)"
    by (simp add: filteredTasks_def)
next
  assume a: "task_assignee t = Some a \<and> a \<in> set EXCLUDED_ASSIGNEES
      \<and> (\<forall>u \<in> set ys. task_gid u = task_gid t \<longrightarrow> task_assignee u = task_assignee t)"
  then have "a \<noteq> []" by (auto simp: EXCLUDED_ASSIGNEES_def)
  with a have t: "\<not> keepsAssignee t" by (simp add: keepsAssignee_def)
  with a have later: "\<forall>u \<in> set ys. task_gid u = task_gid t \<longrightarrow> \<not> keepsAssignee u"
    by (simp add: keepsAssignee_def)
  from filter_uniqueTasks_drop [OF t later]
  show "calculateProgress (filteredTasks (xs @ t # ys)) goals
             = calculateProgress (filteredTasks (xs @ ys)) goals"
    by (simp add: filteredTasks_def)
next
  assume "task_assignee u = None"
  then show "(u \<in> set (filteredTasks zs)) = (u \<in> set (uniqueTasks [] zs))"
    by (simp add: filteredTasks_def keepsAssignee_def)
qed

text \<open>
  A task of an excluded assignee whose name classifies to Tutorial videos, fetched after
  a task without assignee.
\<close>

theorem excluded_assignee_contributes_nothing_witness:
  "\<lparr>task_gid = ''t14'', task_name = ''Recorded a tutorial video on skills'',
      task_completed_at = None, task_tags = Some [],
      task_assignee = Some ''Eva Sasson'', task_followers = None\<rparr>
     \<notin> set (filteredTasks
          [\<lparr>task_gid = ''t12'', task_name = ''Wrote a blog post on MCP apps'',
             task_completed_at = None, task_tags = Some [],
             task_assignee = None, task_followers = None\<rparr>,
           \<lparr>task_gid = ''t14'', task_name = ''Recorded a tutorial video on skills'',
             task_completed_at = None, task_tags = Some [],
             task_assignee = Some ''Eva Sasson'', task_followers = None\<rparr>])
   \<and> calculateProgress
       (filteredTasks
          [\<lparr>task_gid = ''t12'', task_name = ''Wrote a blog post on MCP apps'',
             task_completed_at = None, task_tags = Some [],
             task_assignee = None, task_followers = None\<rparr>,
           \<lparr>task_gid = ''t14'', task_name = ''Recorded a tutorial video on skills'',
             task_completed_at = None, task_tags = Some [],
             task_assignee = Some ''Eva Sasson'', task_followers = None\<rparr>])
       [(''Videos'', [(''Tutorial videos'', Some 4)]), (''Blogs'', [(''Blog posts'', Some 10)])]
     = calculateProgress
       (filteredTasks
          [\<lparr>task_gid = ''t12'', task_name = ''Wrote a blog post on MCP apps'',
             task_completed_at = None, task_tags = Some [],
             task_assignee = None, task_followers = None\<rparr>])
       [(''Videos'', [(''Tutorial videos'', Some 4)]), (''Blogs'', [(''Blog posts'', Some 10)])]
   \<and> \<lparr>task_gid = ''t12'', task_name = ''Wrote a blog post on MCP apps'',
        task_completed_at = None, task_tags = Some [],
        task_assignee = None, task_followers = None\<rparr>
     \<in> set (filteredTasks
          [\<lparr>task_gid = ''t12'', task_name = ''Wrote a blog post on MCP apps'',
             task_completed_at = None, task_tags = Some [],
             task_assignee = None, task_followers = None\<rparr>,
           \<lparr>task_gid = ''t14'', task_name = ''Recorded a tutorial video on skills'',
             task_completed_at = None, task_tags = Some [],
             task_assignee = Some ''Eva Sasson'', task_followers = None\<rparr>])
   \<and> categorizeTask
       \<lparr>task_gid = ''t14'', task_name = ''Recorded a tutorial video on skills'',
          task_completed_at = None, task_tags = Some [],
          task_assignee = Some ''Eva Sasson'', task_followers = None\<rparr>
     = Inr (Some (Mapping ''Videos'' ''Tutorial videos''))"
proof -
  let ?x = "\<lparr>task_gid = ''t12'', task_name = ''Wrote a blog post on MCP apps'',
             task_completed_at = None, task_tags = Some [],
             task_assignee = None, task_followers = None\<rparr>"
  let ?t = "\<lparr>task_gid = ''t14'', task_name = ''Recorded a tutorial video on skills'',
             task_completed_at = None, task_tags = Some [],
             task_assignee = Some ''Eva Sasson'', task_followers = None\<rparr>"
  have c: "categorizeTask ?t = Inr (Some (Mapping ''Videos'' ''Tutorial videos''))"
    by code_simp
  from excluded_assignee_contributes_nothing [where t = ?t and a = "''Eva Sasson''"
      and fetched = "[?x, ?t]" and xs = "[?x]" and ys = "[]" and u = ?x and zs = "[?x, ?t]"
      and goals = "[(''Videos'', [(''Tutorial videos'', Some 4)]), (''Blogs'', [(''Blog posts'', Some 10)])]"]
    c
  show ?thesis
    by (simp add: EXCLUDED_ASSIGNEES_def)
qed

subsection \<open>The cache\<close>

lemma getCache_past_hit:
  assumes "map_of QUARTER_END q = Some e" and "e < p" and "e < n"
  shows "getCache q n n' (setCache q d p p' c) = (Some d, setCache q d p p' c)"
  using assms by (simp add: getCache_def setCache_def isCacheValid_def isQuarterPast_def)

lemma getRun_past_hit:
  assumes "map_of QUARTER_END q = Some e" and "e < p" and "\<forall>r \<in> set reads. e < fst r"
  shows "getRun q reads (setCache q d p p' c)
           = (replicate (length reads) (Some d), setCache q d p p' c)"
  using assms(3)
proof (induction reads)
  case Nil
  show ?case by simp
next
  case (Cons r reads)
  obtain n n' where r: "r = (n, n')" by (cases r)
  from Cons.prems r have "e < n" by simp
  then have "getCache q n n' (setCache q d p p' c) = (Some d, setCache q d p p' c)"
    using assms(1,2) by (rule_tac getCache_past_hit)
  moreover from Cons have "getRun q reads (setCache q d p p' c)
           = (replicate (length reads) (Some d), setCache q d p p' c)" by simp
  ultimately show ?case using r by simp
qed

lemma getCache_open_expired:
  assumes "\<not> isQuarterPast q n" and "CURRENT_QUARTER_TTL \<le> n' - p'"
  shows "getCache q n n' (setCache q d p p' c) = (None, (setCache q d p p' c)(q := None))"
  using assms by (simp add: getCache_def setCache_def isCacheValid_def)

text \<open>
  Claim C5. A period that is already past when its payload is stored (its end lies before
  the clock reading of \<open>setCache\<close>) is served by every later \<open>getCache\<close> whose clock
  reading is after the end as well, whatever time has gone by since it was stored; the payload
  and the cache stay as they are. For a period that is still open at the time of the
  \<open>getCache\<close>, the call reports the entry missing and removes it once the time-to-live has
  passed since the entry was stored.
\<close>

theorem cache_past_kept_open_expires:
  "(map_of QUARTER_END q = Some e \<and> e < p \<and> (\<forall>r \<in> set reads. e < fst r)
      \<longrightarrow> getRun q reads (setCache q d p p' c)
            = (replicate (length reads) (Some d), setCache q d p p' c))
   \<and> (\<not> isQuarterPast q n \<and> CURRENT_QUARTER_TTL \<le> n' - p'
      \<longrightarrow> getCache q n n' (setCache q d p p' c) = (None, (setCache q d p p' c)(q := None)))"
proof (intro conjI impI)
  assume "map_of QUARTER_END q = Some e \<and> e < p \<and> (\<forall>r \<in> set reads. e < fst r)"
  then show "getRun q reads (setCache q d p p' c)
               = (replicate (length reads) (Some d), setCache q d p p' c)"
    by (simp add: getRun_past_hit)
next
  assume "\<not> isQuarterPast q n \<and> CURRENT_QUARTER_TTL \<le> n' - p'"
  then show "getCache q n n' (setCache q d p p' c) = (None, (setCache q d p p' c)(q := None))"
    by (simp add: getCache_open_expired)
qed

text \<open>
  The first quarter of 2026, stored and read after its end, a day apart; and the fourth
  quarter, stored while open and read five minutes later.
\<close>

theorem cache_past_kept_open_expires_witness:
  "getRun ''2026-Q1'' [(1775001600002, 1775001600002), (1775088000000, 1775088000001)]
       (setCache ''2026-Q1'' (7::nat) 1775001600001 1775001600001 Map.empty)
     = ([Some 7, Some 7], setCache ''2026-Q1'' (7::nat) 1775001600001 1775001600001 Map.empty)
   \<and> getCache ''2026-Q4'' 1775001900001 1775001900001
       (setCache ''2026-Q4'' (7::nat) 1775001600001 1775001600001 Map.empty)
     = (None, (setCache ''2026-Q4'' (7::nat) 1775001600001 1775001600001 Map.empty)(''2026-Q4'' := None))"
  using cache_past_kept_open_expires [where q = "''2026-Q1''" and e = 1775001600000
          and p = 1775001600001 and p' = 1775001600001 and d = "7::nat" and c = Map.empty
          and reads = "[(1775001600002, 1775001600002), (1775088000000, 1775088000001)]"]
        cache_past_kept_open_expires [where q = "''2026-Q4''" and n = 1775001900001
          and n' = 1775001900001 and p = 1775001600001 and p' = 1775001600001
          and d = "7::nat" and c = Map.empty]
  by (simp add: QUARTER_END_def isQuarterPast_def CURRENT_QUARTER_TTL_def)


end
